theory Spec2Isabelle
  imports Main
begin

section \<open>Python values, exceptions and library functions\<close>

text \<open>
  The values that flow through \<^verbatim>\<open>main.py\<close>: what \<^verbatim>\<open>json.loads\<close> returns and what the
  handlers pass on to the helpers. A \<^verbatim>\<open>str\<close> is the list of the bytes of its UTF-8
  encoding, so \<^verbatim>\<open>s.encode()\<close> is the identity, a \<^verbatim>\<open>bytes\<close> value is a byte list as well,
  and a string is ASCII exactly when every byte is below 128. JSON numbers are integers
  (Razorpay amounts are integer paise). A dict is the association list of its items.
\<close>

datatype pyval =
    PNone
  | PBool bool
  | PInt int
  | PStr string
  | PList "pyval list"
  | PDict "(string \<times> pyval) list"

datatype pyerror =
    TypeError
  | AttributeError
  | KeyError
  | OverflowError
  | InterfaceError
  | IntegrityError

text \<open>Sequencing of computations that may raise: the first exception wins.\<close>

definition and_then :: "'e + 'a \<Rightarrow> ('a \<Rightarrow> 'e + 'b) \<Rightarrow> 'e + 'b" where
  "and_then m f = (case m of Inl e \<Rightarrow> Inl e | Inr v \<Rightarrow> f v)"

text \<open>Truth value of an object in \<^verbatim>\<open>if x:\<close>, \<^verbatim>\<open>x and y\<close>, \<^verbatim>\<open>x or y\<close>.\<close>

fun truthy :: "pyval \<Rightarrow> bool" where
  "truthy PNone = False"
| "truthy (PBool b) = b"
| "truthy (PInt n) = (n \<noteq> 0)"
| "truthy (PStr s) = (s \<noteq> [])"
| "truthy (PList xs) = (xs \<noteq> [])"
| "truthy (PDict kvs) = (kvs \<noteq> [])"

text \<open>
  \<^verbatim>\<open>x.get(key, default)\<close>: only a dict has the method; on any other value of
  \<^typ>\<open>pyval\<close> the attribute lookup raises AttributeError.
\<close>

fun dict_get :: "pyval \<Rightarrow> string \<Rightarrow> pyval \<Rightarrow> pyerror + pyval" where
  "dict_get (PDict kvs) k d = Inr (case map_of kvs k of None \<Rightarrow> d | Some v \<Rightarrow> v)"
| "dict_get PNone k d = Inl AttributeError"
| "dict_get (PBool b) k d = Inl AttributeError"
| "dict_get (PInt n) k d = Inl AttributeError"
| "dict_get (PStr s) k d = Inl AttributeError"
| "dict_get (PList xs) k d = Inl AttributeError"

text \<open>\<^verbatim>\<open>x[key]\<close> on a value returned by the provider's SDK.\<close>

fun subscript :: "pyval \<Rightarrow> string \<Rightarrow> pyerror + pyval" where
  "subscript (PDict kvs) k = (case map_of kvs k of None \<Rightarrow> Inl KeyError | Some v \<Rightarrow> Inr v)"
| "subscript PNone k = Inl TypeError"
| "subscript (PBool b) k = Inl TypeError"
| "subscript (PInt n) k = Inl TypeError"
| "subscript (PStr s) k = Inl TypeError"
| "subscript (PList xs) k = Inl TypeError"

text \<open>
  \<^verbatim>\<open>str.lower()\<close> on the ASCII letters. A non-ASCII letter is a multi-byte sequence whose
  lower-case form is again non-ASCII for every character that could occur in a plan key of
  the allow-list, so such bytes are left as they are.
\<close>

definition lower_char :: "char \<Rightarrow> char" where
  "lower_char c =
     (if (65::nat) \<le> of_char c \<and> of_char c \<le> (90::nat)
      then char_of (of_char c + (32::nat)) else c)"

definition lower :: "string \<Rightarrow> string" where
  "lower s = map lower_char s"

definition is_ascii :: "string \<Rightarrow> bool" where
  "is_ascii s = list_all (\<lambda>c. of_char c < (128::nat)) s"

text \<open>
  \<^verbatim>\<open>hmac.compare_digest(a, b)\<close> on two \<^verbatim>\<open>str\<close> arguments: the standard library accepts
  ASCII strings only and raises TypeError ("comparing strings with non-ASCII characters
  is not supported") otherwise; on ASCII strings it is equality.
\<close>

definition compare_digest :: "string \<Rightarrow> string \<Rightarrow> pyerror + bool" where
  "compare_digest a b =
     (if is_ascii a \<and> is_ascii b then Inr (a = b) else Inl TypeError)"

section \<open>Configuration and collaborators\<close>

text \<open>
  The module-level configuration read from the environment, and the library and remote
  functions the module calls without defining them: HMAC-SHA256 as a hex digest of a key
  and a message, \<^verbatim>\<open>json.loads\<close> (\<^const>\<open>None\<close> when it raises), \<^verbatim>\<open>json.dumps\<close>, and the two
  calls of the Razorpay client.
\<close>

datatype gw_reply =
    GwReturn pyval
  | GwBadRequest string
  | GwRaise string

record env =
  RAZORPAY_KEY_ID :: string
  RAZORPAY_KEY_SECRET :: string
  RAZORPAY_WEBHOOK_SECRET :: string
  RAZORPAY_STANDARD_PLAN_ID :: string
  RAZORPAY_PRO_PLAN_ID :: string
  hmac_sha256_hex :: "string \<Rightarrow> string \<Rightarrow> string"
  json_loads :: "string \<Rightarrow> pyval option"
  json_dumps :: "pyval \<Rightarrow> string"
  subscription_create :: "pyval \<Rightarrow> gw_reply"
  subscription_cancel :: "string \<Rightarrow> pyval \<Rightarrow> gw_reply"

definition RAZORPAY_PLAN_IDS :: "env \<Rightarrow> (string \<times> string) list" where
  "RAZORPAY_PLAN_IDS E =
     [(''standard'', RAZORPAY_STANDARD_PLAN_ID E), (''pro'', RAZORPAY_PRO_PLAN_ID E)]"

section \<open>Signature verification\<close>

definition verify_razorpay_signature :: "env \<Rightarrow> string \<Rightarrow> string \<Rightarrow> string \<Rightarrow> pyerror + bool" where
  "verify_razorpay_signature E payment_id subscription_id signature =
     (let message = payment_id @ ''|'' @ subscription_id;
          expected = hmac_sha256_hex E (RAZORPAY_KEY_SECRET E) message
      in compare_digest expected signature)"

definition verify_webhook_signature :: "env \<Rightarrow> string \<Rightarrow> string \<Rightarrow> pyerror + bool" where
  "verify_webhook_signature E body signature =
     (let expected = hmac_sha256_hex E (RAZORPAY_WEBHOOK_SECRET E) body
      in compare_digest expected signature)"

section \<open>The database\<close>

text \<open>
  A value SQLite stores or receives as a statement parameter. The \<^verbatim>\<open>sqlite3\<close> module
  binds \<^verbatim>\<open>None\<close>, \<^verbatim>\<open>int\<close> (also \<^verbatim>\<open>bool\<close>) and \<^verbatim>\<open>str\<close>; an \<^verbatim>\<open>int\<close> outside 64 bits
  raises OverflowError, a list or a dict is not a supported type.
\<close>

datatype sqlval = SNull | SInt int | SText string

fun bind_param :: "pyval \<Rightarrow> pyerror + sqlval" where
  "bind_param PNone = Inr SNull"
| "bind_param (PBool b) = Inr (SInt (if b then 1 else 0))"
| "bind_param (PInt n) =
     (if - 9223372036854775808 \<le> n \<and> n \<le> 9223372036854775807
      then Inr (SInt n) else Inl OverflowError)"
| "bind_param (PStr s) = Inr (SText s)"
| "bind_param (PList xs) = Inl InterfaceError"
| "bind_param (PDict kvs) = Inl InterfaceError"

text \<open>
  A column declared TEXT has TEXT affinity: an integer stored into it, or compared with
  it, is converted to its decimal text first. \<^const>\<open>None\<close> is NULL.
\<close>

fun show_nat :: "nat \<Rightarrow> string" where
  "show_nat n =
     (if n < 10 then [char_of (48 + n)]
      else show_nat (n div 10) @ [char_of (48 + n mod 10)])"

declare show_nat.simps [simp del]

definition show_int :: "int \<Rightarrow> string" where
  "show_int i = (if i < 0 then CHR ''-'' # show_nat (nat (- i)) else show_nat (nat i))"

fun as_text :: "sqlval \<Rightarrow> string option" where
  "as_text SNull = None"
| "as_text (SInt n) = Some (show_int n)"
| "as_text (SText s) = Some s"

text \<open>
  The three tables of \<^verbatim>\<open>INIT_SQL\<close>. A table is the list of its rows in insertion order;
  the AUTOINCREMENT \<^verbatim>\<open>id\<close> of a row is its position and is not stored, since the module
  never reads it. A column declared NOT NULL holds a value, any other an option. The
  column \<^verbatim>\<open>amount_paise\<close> holds the parameter as it was bound: the INTEGER affinity of
  the column, which stores numeric text as a number, is not modelled, and no property
  below reads the column.
\<close>

record subscriber =
  s_email :: string
  s_name :: "string option"
  s_phone :: "string option"
  s_plan_key :: string
  s_status :: string
  s_razorpay_customer_id :: "string option"
  s_razorpay_sub_id :: "string option"
  s_created_at :: string
  s_trial_start_at :: "string option"
  s_activated_at :: "string option"
  s_cancelled_at :: "string option"
  s_cancel_at_period_end :: int
  s_updated_at :: string

record payment =
  p_email :: string
  p_phone :: "string option"
  p_plan_key :: "string option"
  p_razorpay_payment_id :: string
  p_razorpay_sub_id :: "string option"
  p_razorpay_order_id :: "string option"
  p_amount_paise :: sqlval
  p_currency :: "string option"
  p_event_type :: "string option"
  p_status :: "string option"
  p_webhook_payload :: "string option"
  p_logged_at :: string

record webhook =
  w_event :: "string option"
  w_entity_id :: "string option"
  w_payload :: "string option"
  w_signature_ok :: int
  w_received_at :: string

record db =
  subscribers :: "subscriber list"
  payment_log :: "payment list"
  webhook_log :: "webhook list"

text \<open>\<^verbatim>\<open>SELECT ... FROM subscribers WHERE email = ?\<close> followed by \<^verbatim>\<open>fetchone()\<close>.\<close>

definition select_subscriber :: "string option \<Rightarrow> subscriber list \<Rightarrow> subscriber option" where
  "select_subscriber key subs =
     (case key of None \<Rightarrow> None | Some e \<Rightarrow> find (\<lambda>r. s_email r = e) subs)"

subsection \<open>upsert\_subscriber\<close>

text \<open>
  The keyword arguments of \<^verbatim>\<open>upsert_subscriber\<close>. The arguments that a handler takes
  from a webhook payload (\<^verbatim>\<open>email\<close>, \<^verbatim>\<open>plan_key\<close>, \<^verbatim>\<open>razorpay_sub_id\<close>) are arbitrary
  values; every other argument is, at each call of the module, a string of the request, a
  timestamp, a literal, or absent. \<open>upsert_defaults\<close> are the defaults of the
  signature.
\<close>

record upsert_args =
  u_email :: pyval
  u_name :: "string option"
  u_phone :: "string option"
  u_plan_key :: pyval
  u_status :: string
  u_razorpay_customer_id :: "string option"
  u_razorpay_sub_id :: pyval
  u_trial_start_at :: "string option"
  u_activated_at :: "string option"
  u_cancelled_at :: "string option"
  u_cancel_at_period_end :: int

definition upsert_defaults :: "pyval \<Rightarrow> upsert_args" where
  "upsert_defaults e =
     \<lparr>u_email = e, u_name = None, u_phone = None, u_plan_key = PStr ''standard'',
      u_status = ''trial'', u_razorpay_customer_id = None, u_razorpay_sub_id = PNone,
      u_trial_start_at = None, u_activated_at = None, u_cancelled_at = None,
      u_cancel_at_period_end = 0\<rparr>"

text \<open>
  The UPDATE of an existing row: a column is assigned exactly when its argument is not
  \<^verbatim>\<open>None\<close>. \<^verbatim>\<open>plan_key\<close>, \<^verbatim>\<open>status\<close> and \<^verbatim>\<open>cancel_at_period_end\<close> have defaults other
  than \<^verbatim>\<open>None\<close>, so they are assigned on every call, and \<^verbatim>\<open>updated_at\<close> with them.
\<close>

definition keep :: "'a option \<Rightarrow> 'a option \<Rightarrow> 'a option" where
  "keep new old = (case new of None \<Rightarrow> old | Some v \<Rightarrow> Some v)"

definition update_row ::
  "string \<Rightarrow> upsert_args \<Rightarrow> string option \<Rightarrow> string option \<Rightarrow> subscriber \<Rightarrow> subscriber" where
  "update_row now a plan sub_id r =
     r\<lparr>s_name := keep (u_name a) (s_name r),
       s_phone := keep (u_phone a) (s_phone r),
       s_plan_key := (case plan of None \<Rightarrow> s_plan_key r | Some p \<Rightarrow> p),
       s_status := u_status a,
       s_razorpay_customer_id := keep (u_razorpay_customer_id a) (s_razorpay_customer_id r),
       s_razorpay_sub_id := keep sub_id (s_razorpay_sub_id r),
       s_trial_start_at := keep (u_trial_start_at a) (s_trial_start_at r),
       s_activated_at := keep (u_activated_at a) (s_activated_at r),
       s_cancelled_at := keep (u_cancelled_at a) (s_cancelled_at r),
       s_cancel_at_period_end := u_cancel_at_period_end a,
       s_updated_at := now\<rparr>"

text \<open>
  The INSERT of a new row binds every column; a NULL in \<^verbatim>\<open>email\<close> or \<^verbatim>\<open>plan_key\<close>
  violates NOT NULL and raises IntegrityError.
\<close>

definition insert_row ::
  "string \<Rightarrow> upsert_args \<Rightarrow> string option \<Rightarrow> string option \<Rightarrow> string option
     \<Rightarrow> pyerror + subscriber" where
  "insert_row now a key plan sub_id =
     (case key of
        None \<Rightarrow> Inl IntegrityError
      | Some e \<Rightarrow>
          (case plan of
             None \<Rightarrow> Inl IntegrityError
           | Some p \<Rightarrow>
               Inr \<lparr>s_email = e, s_name = u_name a, s_phone = u_phone a, s_plan_key = p,
                    s_status = u_status a,
                    s_razorpay_customer_id = u_razorpay_customer_id a,
                    s_razorpay_sub_id = sub_id, s_created_at = now,
                    s_trial_start_at = u_trial_start_at a,
                    s_activated_at = u_activated_at a,
                    s_cancelled_at = u_cancelled_at a,
                    s_cancel_at_period_end = u_cancel_at_period_end a,
                    s_updated_at = now\<rparr>))"

text \<open>
  \<^verbatim>\<open>upsert_subscriber\<close>; \<open>now\<close> is the value of the call of \<^verbatim>\<open>utcnow()\<close> in its first
  line. The SELECT binds the email, then the UPDATE or the INSERT binds its parameters
  in column order.
\<close>

definition upsert_subscriber ::
  "string \<Rightarrow> upsert_args \<Rightarrow> subscriber list \<Rightarrow> pyerror + subscriber list" where
  "upsert_subscriber now a subs =
     and_then (bind_param (u_email a)) (\<lambda>ev.
     and_then (bind_param (u_plan_key a)) (\<lambda>pv.
     and_then (bind_param (u_razorpay_sub_id a)) (\<lambda>sv.
       (case select_subscriber (as_text ev) subs of
          Some existing \<Rightarrow>
            Inr (map (\<lambda>r. if Some (s_email r) = as_text ev
                           then update_row now a (as_text pv) (as_text sv) r else r) subs)
        | None \<Rightarrow>
            and_then (insert_row now a (as_text ev) (as_text pv) (as_text sv))
              (\<lambda>r. Inr (subs @ [r]))))))"

subsection \<open>log\_payment\<close>

record log_args =
  l_email :: pyval
  l_phone :: pyval
  l_plan_key :: pyval
  l_payment_id :: pyval
  l_sub_id :: pyval
  l_order_id :: pyval
  l_amount_paise :: pyval
  l_event_type :: string
  l_status :: string
  l_webhook_payload :: "string option"

text \<open>
  \<^verbatim>\<open>INSERT OR IGNORE INTO payment_log\<close>: the row is skipped when it violates the UNIQUE
  constraint on \<^verbatim>\<open>razorpay_payment_id\<close> or a NOT NULL constraint. \<^verbatim>\<open>currency\<close> is not
  among the inserted columns and takes its default.
\<close>

definition log_payment :: "string \<Rightarrow> log_args \<Rightarrow> payment list \<Rightarrow> pyerror + payment list" where
  "log_payment now a rows =
     and_then (bind_param (l_email a)) (\<lambda>ev.
     and_then (bind_param (l_phone a)) (\<lambda>phv.
     and_then (bind_param (l_plan_key a)) (\<lambda>plv.
     and_then (bind_param (l_payment_id a)) (\<lambda>idv.
     and_then (bind_param (l_sub_id a)) (\<lambda>sv.
     and_then (bind_param (l_order_id a)) (\<lambda>ov.
     and_then (bind_param (l_amount_paise a)) (\<lambda>av.
       (case as_text ev of
          None \<Rightarrow> Inr rows
        | Some e \<Rightarrow>
            (case as_text idv of
               None \<Rightarrow> Inr rows
             | Some pid \<Rightarrow>
                 if pid \<in> set (map p_razorpay_payment_id rows) then Inr rows
                 else Inr (rows @
                   [\<lparr>p_email = e, p_phone = as_text phv, p_plan_key = as_text plv,
                     p_razorpay_payment_id = pid, p_razorpay_sub_id = as_text sv,
                     p_razorpay_order_id = as_text ov, p_amount_paise = av,
                     p_currency = Some ''INR'', p_event_type = Some (l_event_type a),
                     p_status = Some (l_status a),
                     p_webhook_payload = l_webhook_payload a,
                     p_logged_at = now\<rparr>]))))))))))"

section \<open>The endpoints\<close>

text \<open>
  What a request leaves behind: the HTTP response, the database after the request, and
  the calls made to the Razorpay client, in order. A handler that returns a dict answers
  200 with that JSON object; \<open>HTTPException\<close> carries its status code and detail; an
  exception no handler catches is answered 500 by the framework.
\<close>

datatype gw_call =
    SubscriptionCreate pyval
  | SubscriptionCancel string pyval

datatype response =
    Json nat "(string \<times> pyval) list"
  | HTTPException nat string
  | Uncaught pyerror

record outcome =
  response :: response
  store :: db
  gateway_calls :: "gw_call list"

text \<open>
  \<^verbatim>\<open>with db_conn() as conn:\<close> commits the body's writes, or rolls them back and re-raises.
  The body is a function from the database to the database it would commit; on an
  exception the database is the one before the block.
\<close>

definition in_subscribers :: "(subscriber list \<Rightarrow> pyerror + subscriber list) \<Rightarrow> db \<Rightarrow> pyerror + db" where
  "in_subscribers f d = and_then (f (subscribers d)) (\<lambda>subs. Inr (d\<lparr>subscribers := subs\<rparr>))"

definition in_payment_log :: "(payment list \<Rightarrow> pyerror + payment list) \<Rightarrow> db \<Rightarrow> pyerror + db" where
  "in_payment_log f d = and_then (f (payment_log d)) (\<lambda>rows. Inr (d\<lparr>payment_log := rows\<rparr>))"

subsection \<open>POST /api/create-subscription\<close>

record CreateSubscriptionRequest =
  c_email :: string
  c_name :: string
  c_phone :: string
  c_plan_key :: string
  c_plan_id :: string

definition create_payload :: "string \<Rightarrow> CreateSubscriptionRequest \<Rightarrow> string \<Rightarrow> pyval" where
  "create_payload server_plan_id req plan_key =
     PDict [(''plan_id'', PStr server_plan_id), (''total_count'', PInt 120),
            (''quantity'', PInt 1), (''customer_notify'', PInt 1),
            (''notes'', PDict [(''email'', PStr (c_email req)), (''name'', PStr (c_name req)),
                               (''plan_key'', PStr plan_key)])]"

text \<open>
  The timestamps of a request are the values of its calls of \<^verbatim>\<open>utcnow()\<close>, in the order
  of the calls: \<open>clk 0\<close> is the first.
\<close>

definition create_subscription ::
  "env \<Rightarrow> (nat \<Rightarrow> string) \<Rightarrow> CreateSubscriptionRequest \<Rightarrow> db \<Rightarrow> outcome" where
  "create_subscription E clk req d =
     (let plan_key = lower (c_plan_key req) in
      case map_of (RAZORPAY_PLAN_IDS E) plan_key of
        None \<Rightarrow> \<lparr>response = HTTPException 400 ''Invalid plan'', store = d, gateway_calls = []\<rparr>
      | Some server_plan_id \<Rightarrow>
          if server_plan_id = [] then
            \<lparr>response = HTTPException 503 ''Plan not configured'', store = d, gateway_calls = []\<rparr>
          else
            (let call = create_payload server_plan_id req plan_key in
             case subscription_create E call of
               GwBadRequest msg \<Rightarrow>
                 \<lparr>response = HTTPException 400 msg, store = d,
                  gateway_calls = [SubscriptionCreate call]\<rparr>
             | GwRaise msg \<Rightarrow>
                 \<lparr>response = HTTPException 500 ''Internal error'', store = d,
                  gateway_calls = [SubscriptionCreate call]\<rparr>
             | GwReturn subscription \<Rightarrow>
                 (case and_then (subscript subscription ''id'') (\<lambda>sub_id.
                         and_then (in_subscribers (upsert_subscriber (clk 1)
                             ((upsert_defaults (PStr (c_email req)))
                                \<lparr>u_name := Some (c_name req), u_phone := Some (c_phone req),
                                 u_plan_key := PStr plan_key, u_status := ''trial'',
                                 u_razorpay_sub_id := sub_id,
                                 u_trial_start_at := Some (clk 0)\<rparr>)) d)
                           (\<lambda>d'. Inr (sub_id, d'))) of
                    Inl e \<Rightarrow>
                      \<lparr>response = HTTPException 500 ''Internal error'', store = d,
                       gateway_calls = [SubscriptionCreate call]\<rparr>
                  | Inr (sub_id, d') \<Rightarrow>
                      \<lparr>response = Json 200 [(''subscription_id'', sub_id),
                                            (''key_id'', PStr (RAZORPAY_KEY_ID E))],
                       store = d', gateway_calls = [SubscriptionCreate call]\<rparr>)))"

subsection \<open>POST /api/payment-success\<close>

record PaymentSuccessRequest =
  razorpay_payment_id :: string
  razorpay_subscription_id :: string
  razorpay_signature :: string
  ps_email :: string
  ps_name :: string
  ps_phone :: string
  ps_plan_key :: string

definition payment_success_writes :: "(nat \<Rightarrow> string) \<Rightarrow> PaymentSuccessRequest \<Rightarrow> db \<Rightarrow> pyerror + db" where
  "payment_success_writes clk req d =
     and_then (in_subscribers (upsert_subscriber (clk 1)
         ((upsert_defaults (PStr (ps_email req)))
            \<lparr>u_name := Some (ps_name req), u_phone := Some (ps_phone req),
             u_plan_key := PStr (ps_plan_key req), u_status := ''active'',
             u_razorpay_sub_id := PStr (razorpay_subscription_id req),
             u_activated_at := Some (clk 0)\<rparr>)) d)
       (in_payment_log (log_payment (clk 2)
          \<lparr>l_email = PStr (ps_email req), l_phone = PStr (ps_phone req),
           l_plan_key = PStr (ps_plan_key req),
           l_payment_id = PStr (razorpay_payment_id req),
           l_sub_id = PStr (razorpay_subscription_id req), l_order_id = PNone,
           l_amount_paise = PNone, l_event_type = ''manual_success'',
           l_status = ''captured'', l_webhook_payload = None\<rparr>))"

definition payment_success :: "env \<Rightarrow> (nat \<Rightarrow> string) \<Rightarrow> PaymentSuccessRequest \<Rightarrow> db \<Rightarrow> outcome" where
  "payment_success E clk req d =
     (case verify_razorpay_signature E (razorpay_payment_id req)
             (razorpay_subscription_id req) (razorpay_signature req) of
        Inl e \<Rightarrow> \<lparr>response = Uncaught e, store = d, gateway_calls = []\<rparr>
      | Inr False \<Rightarrow>
          \<lparr>response = HTTPException 400 ''Invalid payment signature'', store = d,
           gateway_calls = []\<rparr>
      | Inr True \<Rightarrow>
          (case payment_success_writes clk req d of
             Inl e \<Rightarrow> \<lparr>response = Uncaught e, store = d, gateway_calls = []\<rparr>
           | Inr d' \<Rightarrow>
               \<lparr>response = Json 200 [(''status'', PStr ''ok'')], store = d',
                gateway_calls = []\<rparr>))"

subsection \<open>POST /api/webhook/razorpay\<close>

text \<open>
  \<^verbatim>\<open>_extract_entity_id\<close>: the first of the three keys whose entity has a truthy \<^verbatim>\<open>id\<close>;
  the empty string when there is none, and when any lookup on the way raises.
\<close>

definition entity_of :: "pyval \<Rightarrow> string \<Rightarrow> pyerror + pyval" where
  "entity_of entity key =
     and_then (dict_get entity key (PDict [])) (\<lambda>x. dict_get x ''entity'' (PDict []))"

fun extract_loop :: "pyval \<Rightarrow> string list \<Rightarrow> pyval" where
  "extract_loop payload [] = PStr []"
| "extract_loop payload (key # keys) =
     (case and_then (dict_get payload ''payload'' (PDict [])) (\<lambda>p.
           and_then (entity_of p key) (\<lambda>entity. dict_get entity ''id'' PNone)) of
        Inl e \<Rightarrow> PStr []
      | Inr i \<Rightarrow> if truthy i then i else extract_loop payload keys)"

definition extract_entity_id :: "pyval \<Rightarrow> pyval" where
  "extract_entity_id payload = extract_loop payload [''subscription'', ''payment'', ''order'']"

text \<open>The INSERT into \<^verbatim>\<open>webhook_log\<close>, in a transaction of its own.\<close>

definition webhook_row :: "string \<Rightarrow> sqlval \<Rightarrow> sqlval \<Rightarrow> string \<Rightarrow> bool \<Rightarrow> webhook" where
  "webhook_row now ev iv payload_str sig_ok =
     \<lparr>w_event = as_text ev, w_entity_id = as_text iv, w_payload = Some payload_str,
      w_signature_ok = (if sig_ok then 1 else 0), w_received_at = now\<rparr>"

definition log_webhook :: "string \<Rightarrow> pyval \<Rightarrow> pyval \<Rightarrow> string \<Rightarrow> bool \<Rightarrow> db \<Rightarrow> pyerror + db" where
  "log_webhook now event entity_id payload_str sig_ok d =
     and_then (bind_param event) (\<lambda>ev.
     and_then (bind_param entity_id) (\<lambda>iv.
       Inr (d\<lparr>webhook_log := webhook_log d @ [webhook_row now ev iv payload_str sig_ok]\<rparr>)))"

text \<open>
  A branch of the dispatch yields the exception that ends the request, if any, and the
  database as committed. \<^const>\<open>in_subscribers\<close> and \<^const>\<open>in_payment_log\<close> inside one
  \<open>commit\<close> are the statements of one \<^verbatim>\<open>with\<close> block.
\<close>

definition commit :: "(db \<Rightarrow> pyerror + db) \<Rightarrow> db \<Rightarrow> pyerror option \<times> db" where
  "commit body d = (case body d of Inl e \<Rightarrow> (Some e, d) | Inr d' \<Rightarrow> (None, d'))"

definition activated_fields :: "pyval \<Rightarrow> pyerror + (pyval \<times> pyval \<times> pyval)" where
  "activated_fields entity =
     and_then (entity_of entity ''subscription'') (\<lambda>sub_data.
     and_then (dict_get sub_data ''id'' (PStr [])) (\<lambda>sub_id.
     and_then (dict_get sub_data ''notes'' (PDict [])) (\<lambda>notes.
     and_then (dict_get notes ''email'' (PStr [])) (\<lambda>email.
     and_then (dict_get notes ''plan_key'' (PStr ''standard'')) (\<lambda>plan_key.
       Inr (sub_id, email, plan_key))))))"

definition subscription_activated :: "(nat \<Rightarrow> string) \<Rightarrow> pyval \<Rightarrow> db \<Rightarrow> pyerror option \<times> db" where
  "subscription_activated clk entity d =
     (case activated_fields entity of
        Inl e \<Rightarrow> (Some e, d)
      | Inr (sub_id, email, plan_key) \<Rightarrow>
          if truthy email then
            commit (in_subscribers (upsert_subscriber (clk 2)
              ((upsert_defaults email)
                 \<lparr>u_plan_key := plan_key, u_status := ''active'',
                  u_razorpay_sub_id := sub_id, u_activated_at := Some (clk 1)\<rparr>))) d
          else (None, d))"

text \<open>
  After the commit the branch formats \<^verbatim>\<open>amount/100\<close> for the log line, which raises
  TypeError unless the amount is a number.
\<close>

fun is_number :: "pyval \<Rightarrow> bool" where
  "is_number (PInt n) = True"
| "is_number (PBool b) = True"
| "is_number PNone = False"
| "is_number (PStr s) = False"
| "is_number (PList xs) = False"
| "is_number (PDict kvs) = False"

definition charged_fields :: "pyval \<Rightarrow> pyerror + (pyval \<times> pyval \<times> pyval \<times> pyval \<times> pyval \<times> pyval)" where
  "charged_fields entity =
     and_then (entity_of entity ''payment'') (\<lambda>payment_data.
     and_then (entity_of entity ''subscription'') (\<lambda>sub_data.
     and_then (dict_get payment_data ''id'' (PStr [])) (\<lambda>payment_id.
     and_then (dict_get sub_data ''id'' (PStr [])) (\<lambda>sub_id.
     and_then (dict_get payment_data ''amount'' (PInt 0)) (\<lambda>amount.
     and_then (dict_get sub_data ''notes'' (PDict [])) (\<lambda>notes.
     and_then (dict_get notes ''email'' (PStr [])) (\<lambda>email.
     and_then (dict_get notes ''plan_key'' (PStr ''standard'')) (\<lambda>plan_key.
     and_then (dict_get payment_data ''contact'' (PStr [])) (\<lambda>contact.
       Inr (payment_id, sub_id, amount, email, plan_key, contact))))))))))"

definition charged_writes ::
  "(nat \<Rightarrow> string) \<Rightarrow> string \<Rightarrow> pyval \<times> pyval \<times> pyval \<times> pyval \<times> pyval \<times> pyval \<Rightarrow> db \<Rightarrow> pyerror + db" where
  "charged_writes clk payload_str f d =
     (case f of (payment_id, sub_id, amount, email, plan_key, contact) \<Rightarrow>
        and_then (in_subscribers (upsert_subscriber (clk 1)
            ((upsert_defaults email)
               \<lparr>u_plan_key := plan_key, u_status := ''active'',
                u_razorpay_sub_id := sub_id\<rparr>)) d)
          (in_payment_log (log_payment (clk 2)
             \<lparr>l_email = email, l_phone = contact, l_plan_key = plan_key,
              l_payment_id = payment_id, l_sub_id = sub_id, l_order_id = PNone,
              l_amount_paise = amount, l_event_type = ''subscription.charged'',
              l_status = ''captured'', l_webhook_payload = Some payload_str\<rparr>)))"

definition subscription_charged ::
  "(nat \<Rightarrow> string) \<Rightarrow> string \<Rightarrow> pyval \<Rightarrow> db \<Rightarrow> pyerror option \<times> db" where
  "subscription_charged clk payload_str entity d =
     (case charged_fields entity of
        Inl e \<Rightarrow> (Some e, d)
      | Inr (payment_id, sub_id, amount, email, plan_key, contact) \<Rightarrow>
          if truthy email \<and> truthy payment_id then
            (case commit (charged_writes clk payload_str
                    (payment_id, sub_id, amount, email, plan_key, contact)) d of
               (Some e, d') \<Rightarrow> (Some e, d')
             | (None, d') \<Rightarrow> if is_number amount then (None, d') else (Some TypeError, d'))
          else (None, d))"

definition ended_fields :: "pyval \<Rightarrow> pyerror + (pyval \<times> pyval)" where
  "ended_fields entity =
     and_then (entity_of entity ''subscription'') (\<lambda>sub_data.
     and_then (dict_get sub_data ''id'' (PStr [])) (\<lambda>sub_id.
     and_then (dict_get sub_data ''notes'' (PDict [])) (\<lambda>notes.
     and_then (dict_get notes ''email'' (PStr [])) (\<lambda>email.
       Inr (sub_id, email)))))"

text \<open>
  \<^verbatim>\<open>subscription.cancelled\<close> and \<^verbatim>\<open>subscription.completed\<close> read the same fields and
  differ in the status they store and in \<^verbatim>\<open>cancelled_at\<close>.
\<close>

definition subscription_ended ::
  "string \<Rightarrow> string \<Rightarrow> string option \<Rightarrow> pyval \<Rightarrow> db \<Rightarrow> pyerror option \<times> db" where
  "subscription_ended now new_status cancelled entity d =
     (case ended_fields entity of
        Inl e \<Rightarrow> (Some e, d)
      | Inr (sub_id, email) \<Rightarrow>
          if truthy email then
            commit (in_subscribers (upsert_subscriber now
              ((upsert_defaults email)
                 \<lparr>u_status := new_status, u_razorpay_sub_id := sub_id,
                  u_cancelled_at := cancelled\<rparr>))) d
          else (None, d))"

definition subscription_cancelled :: "(nat \<Rightarrow> string) \<Rightarrow> pyval \<Rightarrow> db \<Rightarrow> pyerror option \<times> db" where
  "subscription_cancelled clk entity d =
     subscription_ended (clk 2) ''cancelled'' (Some (clk 1)) entity d"

definition subscription_completed :: "(nat \<Rightarrow> string) \<Rightarrow> pyval \<Rightarrow> db \<Rightarrow> pyerror option \<times> db" where
  "subscription_completed clk entity d =
     subscription_ended (clk 1) ''expired'' None entity d"

definition failed_fields :: "pyval \<Rightarrow> pyerror + (pyval \<times> pyval \<times> pyval)" where
  "failed_fields entity =
     and_then (entity_of entity ''payment'') (\<lambda>payment_data.
     and_then (dict_get payment_data ''subscription_id'' (PStr [])) (\<lambda>sub_id.
     and_then (dict_get payment_data ''email'' (PStr [])) (\<lambda>email.
     and_then (dict_get payment_data ''id'' (PStr [])) (\<lambda>payment_id.
       Inr (sub_id, email, payment_id)))))"

definition failed_writes ::
  "(nat \<Rightarrow> string) \<Rightarrow> string \<Rightarrow> pyval \<times> pyval \<times> pyval \<Rightarrow> db \<Rightarrow> pyerror + db" where
  "failed_writes clk payload_str f d =
     (case f of (sub_id, email, payment_id) \<Rightarrow>
        and_then (in_subscribers (upsert_subscriber (clk 1)
            ((upsert_defaults email)\<lparr>u_status := ''payment_failed''\<rparr>)) d)
          (in_payment_log (log_payment (if truthy payment_id then clk 2 else clk 3)
             \<lparr>l_email = email, l_phone = PNone, l_plan_key = PStr ''unknown'',
              l_payment_id =
                (if truthy payment_id then payment_id else PStr (''fail_'' @ clk 2)),
              l_sub_id = sub_id, l_order_id = PNone, l_amount_paise = PNone,
              l_event_type = ''payment.failed'', l_status = ''failed'',
              l_webhook_payload = Some payload_str\<rparr>)))"

definition payment_failed ::
  "(nat \<Rightarrow> string) \<Rightarrow> string \<Rightarrow> pyval \<Rightarrow> db \<Rightarrow> pyerror option \<times> db" where
  "payment_failed clk payload_str entity d =
     (case failed_fields entity of
        Inl e \<Rightarrow> (Some e, d)
      | Inr (sub_id, email, payment_id) \<Rightarrow>
          if truthy email then
            commit (failed_writes clk payload_str (sub_id, email, payment_id)) d
          else (None, d))"

definition dispatch ::
  "(nat \<Rightarrow> string) \<Rightarrow> pyval \<Rightarrow> pyval \<Rightarrow> string \<Rightarrow> db \<Rightarrow> pyerror option \<times> db" where
  "dispatch clk event entity payload_str d =
     (if event = PStr ''subscription.activated'' then subscription_activated clk entity d
      else if event = PStr ''subscription.charged'' then
        subscription_charged clk payload_str entity d
      else if event = PStr ''subscription.cancelled'' then subscription_cancelled clk entity d
      else if event = PStr ''subscription.completed'' then subscription_completed clk entity d
      else if event = PStr ''payment.failed'' then payment_failed clk payload_str entity d
      else (None, d))"

definition razorpay_webhook ::
  "env \<Rightarrow> (nat \<Rightarrow> string) \<Rightarrow> string \<Rightarrow> string option \<Rightarrow> db \<Rightarrow> outcome" where
  "razorpay_webhook E clk body header d =
     (let signature = (case header of None \<Rightarrow> [] | Some s \<Rightarrow> s) in
      case verify_webhook_signature E body signature of
        Inl e \<Rightarrow> \<lparr>response = Uncaught e, store = d, gateway_calls = []\<rparr>
      | Inr sig_ok \<Rightarrow>
          (case json_loads E body of
             None \<Rightarrow>
               \<lparr>response = HTTPException 400 ''Invalid payload'', store = d,
                gateway_calls = []\<rparr>
           | Some payload \<Rightarrow>
               (case and_then (dict_get payload ''event'' (PStr [])) (\<lambda>event.
                     and_then (dict_get payload ''payload'' (PDict [])) (\<lambda>entity.
                     and_then (log_webhook (clk 0) event (extract_entity_id payload)
                                 (json_dumps E payload) sig_ok d) (\<lambda>d1.
                       Inr (event, entity, d1)))) of
                  Inl e \<Rightarrow> \<lparr>response = Uncaught e, store = d, gateway_calls = []\<rparr>
                | Inr (event, entity, d1) \<Rightarrow>
                    if \<not> sig_ok then
                      \<lparr>response = Json 200 [(''status'', PStr ''signature_invalid'')],
                       store = d1, gateway_calls = []\<rparr>
                    else
                      (case dispatch clk event entity (json_dumps E payload) d1 of
                         (Some e, d2) \<Rightarrow>
                           \<lparr>response = Uncaught e, store = d2, gateway_calls = []\<rparr>
                       | (None, d2) \<Rightarrow>
                           \<lparr>response = Json 200 [(''status'', PStr ''processed'')],
                            store = d2, gateway_calls = []\<rparr>))))"

subsection \<open>POST /api/cancel-subscription\<close>

text \<open>
  A failure of the provider's call is any exception it raises; both kinds of
  \<^typ>\<open>gw_reply\<close> that are not a return are caught by the same \<^verbatim>\<open>except Exception\<close>.
\<close>

definition cancel_schedule :: "(nat \<Rightarrow> string) \<Rightarrow> string \<Rightarrow> gw_call list \<Rightarrow> db \<Rightarrow> outcome" where
  "cancel_schedule clk email calls d =
     (case commit (in_subscribers (upsert_subscriber (clk 0)
              ((upsert_defaults (PStr email))
                 \<lparr>u_cancel_at_period_end := 1, u_status := ''active''\<rparr>))) d of
        (Some e, d') \<Rightarrow> \<lparr>response = Uncaught e, store = d', gateway_calls = calls\<rparr>
      | (None, d') \<Rightarrow>
          \<lparr>response = Json 200
             [(''status'', PStr ''cancel_scheduled''),
              (''message'', PStr (''Your subscription will not renew. '' @
                 ''Access continues until end of billing period.''))],
           store = d', gateway_calls = calls\<rparr>)"

definition cancel_subscription :: "env \<Rightarrow> (nat \<Rightarrow> string) \<Rightarrow> string \<Rightarrow> db \<Rightarrow> outcome" where
  "cancel_subscription E clk email d =
     (case select_subscriber (Some email) (subscribers d) of
        None \<Rightarrow>
          \<lparr>response = HTTPException 404 ''Subscriber not found'', store = d,
           gateway_calls = []\<rparr>
      | Some row \<Rightarrow>
          if s_status row = ''cancelled'' \<or> s_status row = ''expired'' then
            \<lparr>response = Json 200 [(''status'', PStr ''already_cancelled'')], store = d,
             gateway_calls = []\<rparr>
          else
            (case s_razorpay_sub_id row of
               None \<Rightarrow> cancel_schedule clk email [] d
             | Some sub_id \<Rightarrow>
                 if sub_id = [] then cancel_schedule clk email [] d
                 else
                   (let opts = PDict [(''cancel_at_cycle_end'', PInt 1)] in
                    case subscription_cancel E sub_id opts of
                      GwReturn ack \<Rightarrow>
                        cancel_schedule clk email [SubscriptionCancel sub_id opts] d
                    | GwBadRequest msg \<Rightarrow>
                        \<lparr>response = HTTPException 500 (''Razorpay error: '' @ msg),
                         store = d, gateway_calls = [SubscriptionCancel sub_id opts]\<rparr>
                    | GwRaise msg \<Rightarrow>
                        \<lparr>response = HTTPException 500 (''Razorpay error: '' @ msg),
                         store = d, gateway_calls = [SubscriptionCancel sub_id opts]\<rparr>)))"

subsection \<open>GET /api/subscription-status\<close>

definition opt_str :: "string option \<Rightarrow> pyval" where
  "opt_str v = (case v of None \<Rightarrow> PNone | Some s \<Rightarrow> PStr s)"

definition subscription_status :: "string \<Rightarrow> db \<Rightarrow> outcome" where
  "subscription_status email d =
     (if email = [] then
        \<lparr>response = HTTPException 400 ''email required'', store = d, gateway_calls = []\<rparr>
      else
        (case select_subscriber (Some email) (subscribers d) of
           None \<Rightarrow>
             \<lparr>response = Json 200 [(''status'', PStr ''not_found''), (''active'', PBool False)],
              store = d, gateway_calls = []\<rparr>
         | Some row \<Rightarrow>
             (let active = (s_status row = ''trial'' \<or> s_status row = ''active'') in
              \<lparr>response = Json 200
                 [(''email'', PStr (s_email row)),
                  (''name'', opt_str (s_name row)),
                  (''plan_key'', PStr (s_plan_key row)),
                  (''status'', PStr (s_status row)),
                  (''active'', PBool active),
                  (''razorpay_sub_id'', opt_str (s_razorpay_sub_id row)),
                  (''trial_start_at'', opt_str (s_trial_start_at row)),
                  (''activated_at'', opt_str (s_activated_at row)),
                  (''cancelled_at'', opt_str (s_cancelled_at row)),
                  (''cancel_at_period_end'', PBool (s_cancel_at_period_end row \<noteq> 0)),
                  (''updated_at'', PStr (s_updated_at row))],
               store = d, gateway_calls = []\<rparr>)))"

section \<open>Repeated delivery\<close>

text \<open>
  The provider delivers a webhook again when it sees fit: \<open>deliver E clks body header n\<close>
  is the database after \<open>n\<close> deliveries of the same body and signature header, the
  delivery number \<open>k\<close> (from 0) reading the timestamps \<open>clks k\<close>.
\<close>

fun deliver :: "env \<Rightarrow> (nat \<Rightarrow> nat \<Rightarrow> string) \<Rightarrow> string \<Rightarrow> string option \<Rightarrow> nat \<Rightarrow> db \<Rightarrow> db" where
  "deliver E clks body header 0 d = d"
| "deliver E clks body header (Suc n) d =
     store (razorpay_webhook E (clks n) body header (deliver E clks body header n d))"

section \<open>Sample collaborators and requests\<close>

text \<open>
  Doubles for the collaborators, to run the handlers on concrete requests. The digest
  double returns one fixed hex string, so that string is the valid signature of every
  message and any other string an invalid one. The double of \<^verbatim>\<open>json.loads\<close> knows the
  two sample bodies and rejects every other text. The provider accepts every creation
  and every cancellation but that of \<open>sub_unreachable\<close>.
\<close>

definition sample_charged_body :: string where
  \<open>sample_charged_body =
     ''{"event": "subscription.charged", "payload": {"payment": {"entity": {"id": "pay_1", "amount": 19900, "contact": "+1"}}, "subscription": {"entity": {"id": "sub_1", "notes": {"email": "a@x.com", "plan_key": "pro"}}}}}''\<close>

definition sample_charged_entity :: pyval where
  "sample_charged_entity =
     PDict [(''payment'', PDict [(''entity'', PDict
               [(''id'', PStr ''pay_1''), (''amount'', PInt 19900),
                (''contact'', PStr ''+1'')])]),
            (''subscription'', PDict [(''entity'', PDict
               [(''id'', PStr ''sub_1''),
                (''notes'', PDict [(''email'', PStr ''a@x.com''),
                                   (''plan_key'', PStr ''pro'')])])])]"

definition sample_charged :: pyval where
  "sample_charged =
     PDict [(''event'', PStr ''subscription.charged''), (''payload'', sample_charged_entity)]"

definition sample_activated_body :: string where
  \<open>sample_activated_body =
     ''{"event": "subscription.activated", "payload": {"subscription": {"entity": {"id": "sub_1", "notes": {"email": "a@x.com"}}}}}''\<close>

definition sample_activated_entity :: pyval where
  "sample_activated_entity =
     PDict [(''subscription'', PDict [(''entity'', PDict
               [(''id'', PStr ''sub_1''),
                (''notes'', PDict [(''email'', PStr ''a@x.com'')])])])]"

definition sample_activated :: pyval where
  "sample_activated =
     PDict [(''event'', PStr ''subscription.activated''),
            (''payload'', sample_activated_entity)]"

definition sample_env :: env where
  "sample_env =
     \<lparr>RAZORPAY_KEY_ID = ''rzp_test_1'', RAZORPAY_KEY_SECRET = ''key_secret'',
      RAZORPAY_WEBHOOK_SECRET = ''webhook_secret'',
      RAZORPAY_STANDARD_PLAN_ID = ''plan_standard'', RAZORPAY_PRO_PLAN_ID = [],
      hmac_sha256_hex = (\<lambda>key msg. ''9f2c''),
      json_loads = (\<lambda>body. if body = sample_charged_body then Some sample_charged
                            else if body = sample_activated_body then Some sample_activated
                            else None),
      json_dumps = (\<lambda>v. ''{}''),
      subscription_create = (\<lambda>req. GwReturn (PDict [(''id'', PStr ''sub_1'')])),
      subscription_cancel = (\<lambda>sub_id opts. if sub_id = ''sub_unreachable''
                                             then GwRaise ''timeout'' else GwReturn (PDict []))\<rparr>"

definition sample_clock :: "nat \<Rightarrow> string" where
  "sample_clock i =
     (if i = 0 then ''2024-03-01T10:00:00+00:00''
      else if i = 1 then ''2024-03-01T10:00:01+00:00''
      else ''2024-03-01T10:00:02+00:00'')"

definition empty_db :: db where
  "empty_db = \<lparr>subscribers = [], payment_log = [], webhook_log = []\<rparr>"

definition sample_subscriber :: subscriber where
  "sample_subscriber =
     \<lparr>s_email = ''a@x.com'', s_name = Some ''A'', s_phone = Some ''+1'',
      s_plan_key = ''pro'', s_status = ''active'', s_razorpay_customer_id = None,
      s_razorpay_sub_id = Some ''sub_1'', s_created_at = ''2024-01-01T09:00:00+00:00'',
      s_trial_start_at = Some ''2024-01-01T09:00:00+00:00'',
      s_activated_at = Some ''2024-01-02T09:00:00+00:00'', s_cancelled_at = None,
      s_cancel_at_period_end = 0, s_updated_at = ''2024-01-02T09:00:00+00:00''\<rparr>"

definition sample_db :: db where
  "sample_db = \<lparr>subscribers = [sample_subscriber], payment_log = [], webhook_log = []\<rparr>"

definition sample_confirmation :: PaymentSuccessRequest where
  "sample_confirmation =
     \<lparr>razorpay_payment_id = ''pay_1'', razorpay_subscription_id = ''sub_1'',
      razorpay_signature = ''9f2c'', ps_email = ''a@x.com'', ps_name = ''A'',
      ps_phone = ''+1'', ps_plan_key = ''platinum''\<rparr>"

definition sample_creation :: CreateSubscriptionRequest where
  "sample_creation =
     \<lparr>c_email = ''a@x.com'', c_name = ''A'', c_phone = ''+1'', c_plan_key = ''Standard'',
      c_plan_id = ''plan_from_client''\<rparr>"

section \<open>Basic facts\<close>

lemma and_then_Inl [simp]: "and_then (Inl e) f = Inl e"
  by (simp add: and_then_def)

lemma and_then_Inr [simp]: "and_then (Inr v) f = f v"
  by (simp add: and_then_def)

lemma and_then_eq_Inr:
  "and_then m f = Inr y \<longleftrightarrow> (\<exists>v. m = Inr v \<and> f v = Inr y)"
  by (cases m) simp_all

subsection \<open>Lookups in the subscribers table\<close>

lemma find_map_update:
  assumes "\<And>r. s_email (f r) = s_email r"
  shows "find (\<lambda>r. s_email r = e) (map (\<lambda>r. if s_email r = e then f r else r) subs) =
           map_option f (find (\<lambda>r. s_email r = e) subs)"
  using assms by (induction subs) auto

lemma find_append_new:
  "find P xs = None \<Longrightarrow> find P (xs @ [x]) = (if P x then Some x else None)"
  by (induction xs) (auto split: if_splits)

lemma update_row_email [simp]: "s_email (update_row now a plan sub_id r) = s_email r"
  by (simp add: update_row_def)

lemma upsert_existing:
  assumes "bind_param (u_email a) = Inr ev" and "as_text ev = Some e"
    and "bind_param (u_plan_key a) = Inr pv"
    and "bind_param (u_razorpay_sub_id a) = Inr sv"
    and "select_subscriber (Some e) subs = Some old"
  shows "\<exists>subs'. upsert_subscriber now a subs = Inr subs' \<and>
           select_subscriber (Some e) subs' =
             Some (update_row now a (as_text pv) (as_text sv) old)"
proof -
  have "find (\<lambda>r. s_email r = e)
          (map (\<lambda>r. if s_email r = e then update_row now a (as_text pv) (as_text sv) r else r) subs) =
        Some (update_row now a (as_text pv) (as_text sv) old)"
    using assms(5) by (simp add: find_map_update select_subscriber_def)
  then show ?thesis
    using assms by (simp add: upsert_subscriber_def select_subscriber_def)
qed

lemma upsert_new:
  assumes "bind_param (u_email a) = Inr ev" and "as_text ev = Some e"
    and "bind_param (u_plan_key a) = Inr pv" and "as_text pv = Some p"
    and "bind_param (u_razorpay_sub_id a) = Inr sv"
    and "select_subscriber (Some e) subs = None"
  shows "\<exists>row. insert_row now a (Some e) (Some p) (as_text sv) = Inr row \<and>
           upsert_subscriber now a subs = Inr (subs @ [row]) \<and>
           select_subscriber (Some e) (subs @ [row]) = Some row"
  using assms
  by (simp add: upsert_subscriber_def select_subscriber_def insert_row_def find_append_new)

lemma keep_simps [simp]: "keep None old = old" "keep (Some v) old = Some v"
  by (simp_all add: keep_def)

lemma keep_None [simp]: "keep new None = new"
  by (cases new) simp_all

lemma upsert_text:
  assumes "u_email a = PStr e"
    and "bind_param (u_plan_key a) = Inr pv"
    and "bind_param (u_razorpay_sub_id a) = Inr sv"
    and "select_subscriber (Some e) subs \<noteq> None \<or> as_text pv \<noteq> None"
  shows "\<exists>subs' row. upsert_subscriber now a subs = Inr subs' \<and>
           select_subscriber (Some e) subs' = Some row \<and>
           s_email row = e \<and>
           s_status row = u_status a \<and>
           s_cancel_at_period_end row = u_cancel_at_period_end a \<and>
           s_activated_at row =
             keep (u_activated_at a)
               (case select_subscriber (Some e) subs of None \<Rightarrow> None
                | Some old \<Rightarrow> s_activated_at old) \<and>
           s_plan_key row =
             (case as_text pv of Some p \<Rightarrow> p
              | None \<Rightarrow> (case select_subscriber (Some e) subs of None \<Rightarrow> []
                         | Some old \<Rightarrow> s_plan_key old))"
proof (cases "select_subscriber (Some e) subs")
  case (Some old)
  have b: "bind_param (u_email a) = Inr (SText e)" "as_text (SText e) = Some e"
    using assms(1) by simp_all
  from upsert_existing [OF b assms(2,3) Some, of now]
  obtain subs' where "upsert_subscriber now a subs = Inr subs'"
    and "select_subscriber (Some e) subs' =
           Some (update_row now a (as_text pv) (as_text sv) old)"
    by blast
  moreover have "s_email old = e"
    using Some by (auto simp add: select_subscriber_def find_Some_iff)
  ultimately show ?thesis
    using Some by (simp add: update_row_def split: option.splits)
next
  case None
  then obtain p where p: "as_text pv = Some p" using assms(4) by auto
  have b: "bind_param (u_email a) = Inr (SText e)" "as_text (SText e) = Some e"
    using assms(1) by simp_all
  from upsert_new [OF b assms(2) p assms(3) None, of now]
  obtain row where "insert_row now a (Some e) (Some p) (as_text sv) = Inr row"
    and "upsert_subscriber now a subs = Inr (subs @ [row])"
    and "select_subscriber (Some e) (subs @ [row]) = Some row"
    by blast
  then show ?thesis
    using None p by (auto simp add: insert_row_def)
qed


subsection \<open>The payment log\<close>

lemma filter_absent:
  "x \<notin> set (map f xs) \<Longrightarrow> filter (\<lambda>r. f r = x) xs = []"
  by (induction xs) auto

lemma filter_distinct_present:
  "distinct (map f xs) \<Longrightarrow> x \<in> set (map f xs) \<Longrightarrow> length (filter (\<lambda>r. f r = x) xs) = 1"
  by (induction xs) (auto simp add: filter_absent)

lemma log_payment_result:
  assumes "bind_param (l_email a) = Inr ev" and "as_text ev = Some e"
    and "bind_param (l_phone a) = Inr phv"
    and "bind_param (l_plan_key a) = Inr plv"
    and "bind_param (l_payment_id a) = Inr idv" and "as_text idv = Some pid"
    and "bind_param (l_sub_id a) = Inr sv"
    and "bind_param (l_order_id a) = Inr ov"
    and "bind_param (l_amount_paise a) = Inr av"
  shows "log_payment now a rows =
           Inr (if pid \<in> set (map p_razorpay_payment_id rows) then rows
                else rows @
                  [\<lparr>p_email = e, p_phone = as_text phv, p_plan_key = as_text plv,
                    p_razorpay_payment_id = pid, p_razorpay_sub_id = as_text sv,
                    p_razorpay_order_id = as_text ov, p_amount_paise = av,
                    p_currency = Some ''INR'', p_event_type = Some (l_event_type a),
                    p_status = Some (l_status a),
                    p_webhook_payload = l_webhook_payload a, p_logged_at = now\<rparr>])"
  using assms by (simp add: log_payment_def)

lemma logged_once:
  assumes "distinct (map p_razorpay_payment_id rows)"
    and "p_razorpay_payment_id row = pid"
    and "rows' = (if pid \<in> set (map p_razorpay_payment_id rows) then rows else rows @ [row])"
  shows "distinct (map p_razorpay_payment_id rows') \<and>
         length (filter (\<lambda>r. p_razorpay_payment_id r = pid) rows') = 1"
  using assms by (auto simp add: filter_distinct_present filter_absent)

subsection \<open>The webhook handler\<close>

lemma webhook_logged:
  assumes "verify_webhook_signature E body (case header of None \<Rightarrow> [] | Some s \<Rightarrow> s) = Inr sig_ok"
    and "json_loads E body = Some payload"
    and "dict_get payload ''event'' (PStr []) = Inr event"
    and "dict_get payload ''payload'' (PDict []) = Inr entity"
    and "bind_param event = Inr ev"
    and "bind_param (extract_entity_id payload) = Inr iv"
  shows "store (razorpay_webhook E clk body header d) =
           (let d1 = d\<lparr>webhook_log := webhook_log d @
                       [webhook_row (clk 0) ev iv (json_dumps E payload) sig_ok]\<rparr>
            in if sig_ok then snd (dispatch clk event entity (json_dumps E payload) d1) else d1)"
  using assms
  by (simp add: razorpay_webhook_def log_webhook_def Let_def split: prod.splits option.splits)

lemma in_subscribers_frame:
  "in_subscribers f d = Inr d' \<Longrightarrow>
     webhook_log d' = webhook_log d \<and> payment_log d' = payment_log d"
  by (auto simp add: in_subscribers_def and_then_eq_Inr)

lemma in_payment_log_frame:
  "in_payment_log f d = Inr d' \<Longrightarrow>
     webhook_log d' = webhook_log d \<and> subscribers d' = subscribers d"
  by (auto simp add: in_payment_log_def and_then_eq_Inr)

lemma commit_frame:
  assumes "\<And>d'. body d = Inr d' \<Longrightarrow> webhook_log d' = webhook_log d"
  shows "webhook_log (snd (commit body d)) = webhook_log d"
  using assms by (simp add: commit_def split: sum.splits)

lemma subscription_activated_frame:
  "webhook_log (snd (subscription_activated clk entity d)) = webhook_log d"
  by (auto simp add: subscription_activated_def in_subscribers_frame
      intro!: commit_frame split: sum.splits)

lemma charged_writes_frame:
  "charged_writes clk payload_str f d = Inr d' \<Longrightarrow> webhook_log d' = webhook_log d"
  by (auto simp add: charged_writes_def and_then_eq_Inr
      dest!: in_subscribers_frame in_payment_log_frame split: prod.splits)

lemma subscription_charged_frame:
  "webhook_log (snd (subscription_charged clk payload_str entity d)) = webhook_log d"
proof -
  have "webhook_log (snd (commit (charged_writes clk payload_str f) d)) = webhook_log d" for f
    by (rule commit_frame) (rule charged_writes_frame)
  then show ?thesis
    by (auto simp add: subscription_charged_def split: sum.splits prod.splits option.splits)
      (metis snd_conv)+
qed

lemma subscription_ended_frame:
  "webhook_log (snd (subscription_ended now st c entity d)) = webhook_log d"
  by (auto simp add: subscription_ended_def in_subscribers_frame
      intro!: commit_frame split: sum.splits)

lemma failed_writes_frame:
  "failed_writes clk payload_str f d = Inr d' \<Longrightarrow> webhook_log d' = webhook_log d"
  by (auto simp add: failed_writes_def and_then_eq_Inr
      dest!: in_subscribers_frame in_payment_log_frame split: prod.splits)

lemma payment_failed_frame:
  "webhook_log (snd (payment_failed clk payload_str entity d)) = webhook_log d"
  by (auto simp add: payment_failed_def failed_writes_frame
      intro!: commit_frame split: sum.splits)

lemma dispatch_frame:
  "webhook_log (snd (dispatch clk event entity payload_str d)) = webhook_log d"
  by (simp add: dispatch_def subscription_activated_frame subscription_charged_frame
      subscription_cancelled_def subscription_completed_def subscription_ended_frame
      payment_failed_frame)


lemma dict_get_other_default:
  "dict_get v k d1 = Inr a \<Longrightarrow>
     \<exists>b. dict_get v k d2 = Inr b \<and> (b = a \<or> (a = d1 \<and> b = d2))"
  by (cases v) (auto split: option.splits)

lemma charged_entity_id:
  assumes "dict_get payload ''payload'' (PDict []) = Inr entity"
    and "charged_fields entity = Inr (PStr pid, sub_id, amount, email, plan_key, contact)"
    and "pid \<noteq> []"
  shows "extract_entity_id payload = (if truthy sub_id then sub_id else PStr pid)"
proof -
  from assms(2) obtain payment_data sub_data
    where pd: "entity_of entity ''payment'' = Inr payment_data"
      and sd: "entity_of entity ''subscription'' = Inr sub_data"
      and pid: "dict_get payment_data ''id'' (PStr []) = Inr (PStr pid)"
      and sid: "dict_get sub_data ''id'' (PStr []) = Inr sub_id"
    by (auto simp add: charged_fields_def and_then_eq_Inr)
  from dict_get_other_default [OF sid, of PNone]
  obtain b where b: "dict_get sub_data ''id'' PNone = Inr b"
    and b': "b = sub_id \<or> (sub_id = PStr [] \<and> b = PNone)"
    by blast
  from dict_get_other_default [OF pid, of PNone] assms(3)
  have p: "dict_get payment_data ''id'' PNone = Inr (PStr pid)"
    by auto
  show ?thesis
    using b' assms(3) by (auto simp add: extract_entity_id_def assms(1) pd sd b p)
qed

lemma as_text_not_null: "v \<noteq> SNull \<Longrightarrow> as_text v \<noteq> None"
  by (cases v) simp_all

lemma charged_step:
  assumes "verify_webhook_signature E body (case header of None \<Rightarrow> [] | Some s \<Rightarrow> s) = Inr True"
    and "json_loads E body = Some payload"
    and "dict_get payload ''event'' (PStr []) = Inr (PStr ''subscription.charged'')"
    and "dict_get payload ''payload'' (PDict []) = Inr entity"
    and "charged_fields entity = Inr (PStr pid, sub_id, amount, PStr email, plan_key, contact)"
    and "pid \<noteq> []" and "email \<noteq> []"
    and "bind_param sub_id = Inr sv" and "bind_param amount = Inr av"
    and "bind_param plan_key = Inr pv" and "pv \<noteq> SNull"
    and "bind_param contact = Inr cv"
    and "distinct (map p_razorpay_payment_id (payment_log d))"
  shows "distinct (map p_razorpay_payment_id
           (payment_log (store (razorpay_webhook E clk body header d)))) \<and>
         length (filter (\<lambda>r. p_razorpay_payment_id r = pid)
           (payment_log (store (razorpay_webhook E clk body header d)))) = 1 \<and>
         map_option s_status (select_subscriber (Some email)
           (subscribers (store (razorpay_webhook E clk body header d)))) = Some ''active''"
proof -
  let ?iv = "if truthy sub_id then sv else SText pid"
  let ?d1 = "d\<lparr>webhook_log := webhook_log d @
               [webhook_row (clk 0) (SText ''subscription.charged'') ?iv
                  (json_dumps E payload) True]\<rparr>"
  let ?a = "(upsert_defaults (PStr email))
              \<lparr>u_plan_key := plan_key, u_status := ''active'', u_razorpay_sub_id := sub_id\<rparr>"
  let ?l = "\<lparr>l_email = PStr email, l_phone = contact, l_plan_key = plan_key,
              l_payment_id = PStr pid, l_sub_id = sub_id, l_order_id = PNone,
              l_amount_paise = amount, l_event_type = ''subscription.charged'',
              l_status = ''captured'', l_webhook_payload = Some (json_dumps E payload)\<rparr>"
  have bev: "bind_param (PStr ''subscription.charged'') = Inr (SText ''subscription.charged'')"
    by simp
  have bid: "bind_param (extract_entity_id payload) = Inr ?iv"
    using charged_entity_id [OF assms(4,5,6)] assms(8) by simp
  have st: "store (razorpay_webhook E clk body header d) =
              snd (subscription_charged clk (json_dumps E payload) entity ?d1)"
    using webhook_logged [OF assms(1,2,3,4) bev bid, of clk d] by (simp add: dispatch_def)
  have "u_email ?a = PStr email" and "bind_param (u_plan_key ?a) = Inr pv"
    and "bind_param (u_razorpay_sub_id ?a) = Inr sv"
    and "select_subscriber (Some email) (subscribers ?d1) \<noteq> None \<or> as_text pv \<noteq> None"
    using assms(8,10,11) by (simp_all add: upsert_defaults_def as_text_not_null)
  from upsert_text [OF this, of "clk 1"]
  obtain subs' row where up: "upsert_subscriber (clk 1) ?a (subscribers ?d1) = Inr subs'"
    and sel: "select_subscriber (Some email) subs' = Some row"
    and act: "s_status row = ''active''"
    by (auto simp add: upsert_defaults_def)
  have "bind_param (l_email ?l) = Inr (SText email)"
    and "as_text (SText email) = Some email"
    and "bind_param (l_phone ?l) = Inr cv"
    and "bind_param (l_plan_key ?l) = Inr pv"
    and "bind_param (l_payment_id ?l) = Inr (SText pid)"
    and "as_text (SText pid) = Some pid"
    and "bind_param (l_sub_id ?l) = Inr sv"
    and "bind_param (l_order_id ?l) = Inr SNull"
    and "bind_param (l_amount_paise ?l) = Inr av"
    using assms(8,9,10,12) by simp_all
  from log_payment_result [OF this, of "clk 2" "payment_log d"]
  obtain new where lp: "log_payment (clk 2) ?l (payment_log d) =
      Inr (if pid \<in> set (map p_razorpay_payment_id (payment_log d)) then payment_log d
           else payment_log d @ [new])"
    and new: "p_razorpay_payment_id new = pid"
    by simp
  let ?rows = "if pid \<in> set (map p_razorpay_payment_id (payment_log d)) then payment_log d
               else payment_log d @ [new]"
  have w: "charged_writes clk (json_dumps E payload)
             (PStr pid, sub_id, amount, PStr email, plan_key, contact) ?d1 =
           Inr (?d1\<lparr>subscribers := subs', payment_log := ?rows\<rparr>)"
    using up lp by (simp add: charged_writes_def in_subscribers_def in_payment_log_def)
  have "store (razorpay_webhook E clk body header d) =
          ?d1\<lparr>subscribers := subs', payment_log := ?rows\<rparr>"
    using assms(5,6,7) by (simp add: st subscription_charged_def commit_def w)
  moreover have "distinct (map p_razorpay_payment_id ?rows) \<and>
      length (filter (\<lambda>r. p_razorpay_payment_id r = pid) ?rows) = 1"
    by (rule logged_once [OF assms(13) new refl])
  ultimately show ?thesis
    using sel act by simp
qed


subsection \<open>The sample collaborators\<close>

lemma sample_verify_razorpay:
  "verify_razorpay_signature sample_env p s sig =
     (if is_ascii sig then Inr (''9f2c'' = sig) else Inl TypeError)"
  by (simp add: verify_razorpay_signature_def compare_digest_def is_ascii_def sample_env_def)

lemma sample_verify_webhook:
  "verify_webhook_signature sample_env body sig =
     (if is_ascii sig then Inr (''9f2c'' = sig) else Inl TypeError)"
  by (simp add: verify_webhook_signature_def compare_digest_def is_ascii_def sample_env_def)

lemma sample_charged_parts:
  "json_loads sample_env sample_charged_body = Some sample_charged"
  "dict_get sample_charged ''event'' (PStr []) = Inr (PStr ''subscription.charged'')"
  "dict_get sample_charged ''payload'' (PDict []) = Inr sample_charged_entity"
  "bind_param (PStr ''subscription.charged'') = Inr (SText ''subscription.charged'')"
  "bind_param (extract_entity_id sample_charged) = Inr (SText ''sub_1'')"
  by (simp_all add: sample_env_def sample_charged_def sample_charged_entity_def
      extract_entity_id_def entity_of_def)

lemma sample_dumps [simp]: "json_dumps sample_env v = ''{}''"
  by (simp add: sample_env_def)

lemma sample_activated_parts:
  "json_loads sample_env sample_activated_body = Some sample_activated"
  "dict_get sample_activated ''event'' (PStr []) = Inr (PStr ''subscription.activated'')"
  "dict_get sample_activated ''payload'' (PDict []) = Inr sample_activated_entity"
  "bind_param (extract_entity_id sample_activated) = Inr (SText ''sub_1'')"
  "activated_fields sample_activated_entity =
     Inr (PStr ''sub_1'', PStr ''a@x.com'', PStr ''standard'')"
  by (simp_all add: sample_env_def sample_activated_def sample_activated_entity_def
      extract_entity_id_def entity_of_def activated_fields_def
      sample_activated_body_def sample_charged_body_def)

lemma sample_charged_fields:
  "charged_fields sample_charged_entity =
     Inr (PStr ''pay_1'', PStr ''sub_1'', PInt 19900, PStr ''a@x.com'', PStr ''pro'', PStr ''+1'')"
  by (simp add: charged_fields_def sample_charged_entity_def entity_of_def)

section \<open>The verifiers\<close>

text \<open>
  C7. The two verifiers are meant to return a boolean for every signature string and
  never to raise. They do not: a signature with a non-ASCII character, here the two
  bytes of U+00E9, makes \<^verbatim>\<open>hmac.compare_digest\<close> raise TypeError, whatever the secret, the
  digest and the message are.
\<close>

theorem verify_signature_raises_on_non_ascii:
  "verify_webhook_signature E body [CHR 0xC3, CHR 0xA9] = Inl TypeError \<and>
   verify_razorpay_signature E payment_id subscription_id [CHR 0xC3, CHR 0xA9] = Inl TypeError"
  by (simp add: verify_webhook_signature_def verify_razorpay_signature_def
      compare_digest_def is_ascii_def)

text \<open>
  On ASCII signatures, the digest being hexadecimal text, both verifiers do return a
  boolean: whether the signature is the expected digest.
\<close>

lemma verify_webhook_signature_ascii:
  assumes "is_ascii signature"
    and "is_ascii (hmac_sha256_hex E (RAZORPAY_WEBHOOK_SECRET E) body)"
  shows "verify_webhook_signature E body signature =
           Inr (hmac_sha256_hex E (RAZORPAY_WEBHOOK_SECRET E) body = signature)"
  using assms by (simp add: verify_webhook_signature_def compare_digest_def)

lemma verify_razorpay_signature_ascii:
  assumes "is_ascii signature"
    and "is_ascii (hmac_sha256_hex E (RAZORPAY_KEY_SECRET E) (payment_id @ ''|'' @ subscription_id))"
  shows "verify_razorpay_signature E payment_id subscription_id signature =
           Inr (hmac_sha256_hex E (RAZORPAY_KEY_SECRET E) (payment_id @ ''|'' @ subscription_id)
                = signature)"
  using assms by (simp add: verify_razorpay_signature_def compare_digest_def)

text \<open>
  The exception reaches the webhook endpoint: a webhook with such a signature header
  ends before the audit row is written, and leaves the database as it was.
\<close>

lemma razorpay_webhook_non_ascii_signature:
  "razorpay_webhook E clk body (Some [CHR 0xC3, CHR 0xA9]) d =
     \<lparr>response = Uncaught TypeError, store = d, gateway_calls = []\<rparr>"
  by (simp add: razorpay_webhook_def verify_webhook_signature_def compare_digest_def
      is_ascii_def)

section \<open>Payment confirmation\<close>

text \<open>
  C5. A confirmation whose signature fails verification is meant to be answered 400
  "Invalid payment signature" and to change nothing. The endpoint does not answer 400
  for every such signature: one with a non-ASCII character, here the two bytes of
  U+00E9, makes the verifier raise TypeError, which no handler catches, so the request
  is answered 500 by the framework. The database is left as it was and the provider is
  not called, whatever the rest of the request is.
\<close>

theorem payment_success_non_ascii_signature:
  "payment_success E clk (req\<lparr>razorpay_signature := [CHR 0xC3, CHR 0xA9]\<rparr>) d =
     \<lparr>response = Uncaught TypeError, store = d, gateway_calls = []\<rparr> \<and>
   response (payment_success E clk (req\<lparr>razorpay_signature := [CHR 0xC3, CHR 0xA9]\<rparr>) d) \<noteq>
     HTTPException 400 ''Invalid payment signature''"
  by (simp add: payment_success_def verify_razorpay_signature_def compare_digest_def
      is_ascii_def)

text \<open>
  When the verifier returns, and returns false, the answer is 400 "Invalid payment
  signature" and the database is the one before the request: no subscriber row is
  inserted or updated and no payment row is appended.
\<close>

lemma payment_success_rejected_signature:
  assumes "verify_razorpay_signature E (razorpay_payment_id req)
             (razorpay_subscription_id req) (razorpay_signature req) = Inr False"
  shows "payment_success E clk req d =
           \<lparr>response = HTTPException 400 ''Invalid payment signature'', store = d,
            gateway_calls = []\<rparr>"
  using assms by (simp add: payment_success_def)

lemma payment_success_rejected_signature_sample:
  "payment_success sample_env sample_clock
       (sample_confirmation\<lparr>razorpay_signature := ''0000''\<rparr>) sample_db =
     \<lparr>response = HTTPException 400 ''Invalid payment signature'', store = sample_db,
      gateway_calls = []\<rparr>"
proof -
  let ?req = "sample_confirmation\<lparr>razorpay_signature := ''0000''\<rparr>"
  have "verify_razorpay_signature sample_env (razorpay_payment_id ?req)
          (razorpay_subscription_id ?req) (razorpay_signature ?req) = Inr False"
    by (simp add: sample_verify_razorpay is_ascii_def)
  then show ?thesis by (rule payment_success_rejected_signature)
qed

text \<open>
  No mutation holds on every path but the one of a signature that verifies: whenever
  the verifier raises or returns false, the database is unchanged and the provider is
  not called.
\<close>

lemma payment_success_unverified_no_mutation:
  assumes "verify_razorpay_signature E (razorpay_payment_id req)
             (razorpay_subscription_id req) (razorpay_signature req) \<noteq> Inr True"
  shows "store (payment_success E clk req d) = d \<and>
         gateway_calls (payment_success E clk req d) = []"
  using assms by (auto simp add: payment_success_def split: sum.splits bool.splits)



section \<open>Cancellation\<close>

text \<open>
  C6. When the provider's cancel call raises, the request is answered 500 with the
  provider's message and the database is left exactly as it was.
\<close>

theorem cancel_subscription_gateway_failure:
  assumes "select_subscriber (Some email) (subscribers d) = Some row"
    and "s_status row \<noteq> ''cancelled''" and "s_status row \<noteq> ''expired''"
    and "s_razorpay_sub_id row = Some sub_id" and "sub_id \<noteq> []"
    and "subscription_cancel E sub_id (PDict [(''cancel_at_cycle_end'', PInt 1)]) = GwRaise msg
       \<or> subscription_cancel E sub_id (PDict [(''cancel_at_cycle_end'', PInt 1)]) = GwBadRequest msg"
  shows "response (cancel_subscription E clk email d) =
           HTTPException 500 (''Razorpay error: '' @ msg)
       \<and> store (cancel_subscription E clk email d) = d"
  using assms by (auto simp add: cancel_subscription_def)

theorem cancel_subscription_gateway_failure_witness:
  "response (cancel_subscription sample_env sample_clock ''a@x.com''
       (sample_db\<lparr>subscribers := [sample_subscriber\<lparr>s_razorpay_sub_id := Some ''sub_unreachable''\<rparr>]\<rparr>)) =
     HTTPException 500 (''Razorpay error: '' @ ''timeout'')
   \<and> store (cancel_subscription sample_env sample_clock ''a@x.com''
       (sample_db\<lparr>subscribers := [sample_subscriber\<lparr>s_razorpay_sub_id := Some ''sub_unreachable''\<rparr>]\<rparr>)) =
     sample_db\<lparr>subscribers := [sample_subscriber\<lparr>s_razorpay_sub_id := Some ''sub_unreachable''\<rparr>]\<rparr>"
proof -
  let ?row = "sample_subscriber\<lparr>s_razorpay_sub_id := Some ''sub_unreachable''\<rparr>"
  let ?d = "sample_db\<lparr>subscribers := [?row]\<rparr>"
  have 1: "select_subscriber (Some ''a@x.com'') (subscribers ?d) = Some ?row"
    by (simp add: select_subscriber_def sample_subscriber_def)
  have 2: "s_status ?row \<noteq> ''cancelled''" and 3: "s_status ?row \<noteq> ''expired''"
    by (simp_all add: sample_subscriber_def)
  have 4: "s_razorpay_sub_id ?row = Some ''sub_unreachable''" by simp
  have 5: "''sub_unreachable'' \<noteq> []" by simp
  have 6: "subscription_cancel sample_env ''sub_unreachable''
             (PDict [(''cancel_at_cycle_end'', PInt 1)]) = GwRaise ''timeout''
         \<or> subscription_cancel sample_env ''sub_unreachable''
             (PDict [(''cancel_at_cycle_end'', PInt 1)]) = GwBadRequest ''timeout''"
    by (simp add: sample_env_def)
  show ?thesis
    by (rule cancel_subscription_gateway_failure [OF 1 2 3 4 5 6])
qed

lemma cancel_schedule_result:
  assumes "select_subscriber (Some email) (subscribers d) = Some row"
  shows "gateway_calls (cancel_schedule clk email calls d) = calls \<and>
         (\<exists>msg. response (cancel_schedule clk email calls d) =
            Json 200 [(''status'', PStr ''cancel_scheduled''), (''message'', msg)]) \<and>
         (\<exists>row'. select_subscriber (Some email)
                    (subscribers (store (cancel_schedule clk email calls d))) = Some row' \<and>
                  s_cancel_at_period_end row' = 1 \<and> s_status row' = ''active'')"
proof -
  let ?a = "(upsert_defaults (PStr email))\<lparr>u_cancel_at_period_end := 1, u_status := ''active''\<rparr>"
  have "u_email ?a = PStr email"
    and "bind_param (u_plan_key ?a) = Inr (SText ''standard'')"
    and "bind_param (u_razorpay_sub_id ?a) = Inr SNull"
    and "select_subscriber (Some email) (subscribers d) \<noteq> None
         \<or> as_text (SText ''standard'') \<noteq> None"
    by (simp_all add: upsert_defaults_def)
  from upsert_text [OF this, of "clk 0"]
  obtain subs' row' where "upsert_subscriber (clk 0) ?a (subscribers d) = Inr subs'"
    and "select_subscriber (Some email) subs' = Some row'"
    and "s_status row' = ''active''" and "s_cancel_at_period_end row' = 1"
    by (auto simp add: upsert_defaults_def)
  then show ?thesis
    by (simp add: cancel_schedule_def commit_def in_subscribers_def)
qed

text \<open>
  C4, as the code has it. For a subscriber whose stored status is neither \<open>cancelled\<close>
  nor \<open>expired\<close>: the provider's cancel-at-cycle-end is called, once, exactly when a
  non-empty subscription id is stored; provided that call does not fail,
  \<open>cancel_at_period_end\<close> is set to 1, and the status of an active subscriber is left as
  it was.
\<close>

theorem cancel_subscription_schedules:
  assumes "select_subscriber (Some email) (subscribers d) = Some row"
    and "s_status row \<notin> {''cancelled'', ''expired''}"
    and "\<forall>sub_id. s_razorpay_sub_id row = Some sub_id \<and> sub_id \<noteq> [] \<longrightarrow>
           (\<exists>ack. subscription_cancel E sub_id (PDict [(''cancel_at_cycle_end'', PInt 1)]) =
                    GwReturn ack)"
  shows "gateway_calls (cancel_subscription E clk email d) =
           (case s_razorpay_sub_id row of
              None \<Rightarrow> []
            | Some sub_id \<Rightarrow>
                if sub_id = [] then []
                else [SubscriptionCancel sub_id (PDict [(''cancel_at_cycle_end'', PInt 1)])]) \<and>
         (\<exists>msg. response (cancel_subscription E clk email d) =
            Json 200 [(''status'', PStr ''cancel_scheduled''), (''message'', msg)]) \<and>
         (\<exists>row'. select_subscriber (Some email)
                    (subscribers (store (cancel_subscription E clk email d))) = Some row' \<and>
                  s_cancel_at_period_end row' = 1 \<and>
                  (s_status row = ''active'' \<longrightarrow> s_status row' = s_status row))"
proof (cases "s_razorpay_sub_id row")
  case None
  then have "cancel_subscription E clk email d = cancel_schedule clk email [] d"
    using assms(1,2) by (simp add: cancel_subscription_def)
  then show ?thesis
    using cancel_schedule_result [OF assms(1), of clk "[]"] None by auto
next
  case (Some sub_id)
  show ?thesis
  proof (cases "sub_id = []")
    case True
    then have "cancel_subscription E clk email d = cancel_schedule clk email [] d"
      using assms(1,2) Some by (simp add: cancel_subscription_def)
    then show ?thesis
      using cancel_schedule_result [OF assms(1), of clk "[]"] Some True by auto
  next
    case False
    let ?opts = "PDict [(''cancel_at_cycle_end'', PInt 1)]"
    from assms(3) Some False obtain ack
      where "subscription_cancel E sub_id ?opts = GwReturn ack" by blast
    then have "cancel_subscription E clk email d =
                 cancel_schedule clk email [SubscriptionCancel sub_id ?opts] d"
      using assms(1,2) Some False by (simp add: cancel_subscription_def)
    then show ?thesis
      using cancel_schedule_result [OF assms(1), of clk "[SubscriptionCancel sub_id ?opts]"]
        Some False by auto
  qed
qed

theorem cancel_subscription_schedules_witness:
  "gateway_calls (cancel_subscription sample_env sample_clock ''a@x.com'' sample_db) =
     [SubscriptionCancel ''sub_1'' (PDict [(''cancel_at_cycle_end'', PInt 1)])] \<and>
   (\<exists>row'. select_subscriber (Some ''a@x.com'')
       (subscribers (store (cancel_subscription sample_env sample_clock ''a@x.com'' sample_db))) =
         Some row' \<and>
       s_cancel_at_period_end row' = 1 \<and> s_status row' = ''active'')"
proof -
  have 1: "select_subscriber (Some ''a@x.com'') (subscribers sample_db) = Some sample_subscriber"
    by (simp add: select_subscriber_def sample_db_def sample_subscriber_def)
  have 2: "s_status sample_subscriber \<notin> {''cancelled'', ''expired''}"
    by (simp add: sample_subscriber_def)
  have 3: "\<forall>sub_id. s_razorpay_sub_id sample_subscriber = Some sub_id \<and> sub_id \<noteq> [] \<longrightarrow>
           (\<exists>ack. subscription_cancel sample_env sub_id (PDict [(''cancel_at_cycle_end'', PInt 1)]) =
                    GwReturn ack)"
    by (simp add: sample_subscriber_def sample_env_def)
  have 4: "s_razorpay_sub_id sample_subscriber = Some ''sub_1''"
    and 5: "s_status sample_subscriber = ''active''"
    by (simp_all add: sample_subscriber_def)
  from cancel_subscription_schedules [OF 1 2 3, of sample_clock] 4 5
  show ?thesis by auto
qed

text \<open>
  The claim as stated has the provider called for every such subscriber; an active
  subscriber with no stored subscription id is scheduled for cancellation without any
  call.
\<close>

theorem cancel_subscription_without_sub_id:
  "select_subscriber (Some ''a@x.com'')
     (subscribers (sample_db\<lparr>subscribers := [sample_subscriber\<lparr>s_razorpay_sub_id := None\<rparr>]\<rparr>)) =
     Some (sample_subscriber\<lparr>s_razorpay_sub_id := None\<rparr>) \<and>
   s_status (sample_subscriber\<lparr>s_razorpay_sub_id := None\<rparr>) = ''active'' \<and>
   gateway_calls (cancel_subscription sample_env sample_clock ''a@x.com''
     (sample_db\<lparr>subscribers := [sample_subscriber\<lparr>s_razorpay_sub_id := None\<rparr>]\<rparr>)) = []"
  by (simp add: cancel_subscription_def select_subscriber_def sample_subscriber_def
      cancel_schedule_def commit_def in_subscribers_def upsert_subscriber_def
      upsert_defaults_def split: prod.splits)

text \<open>
  Whatever the stored status was, a scheduled cancellation stores the status
  \<open>active\<close>, which the handler passes to the upsert as a literal: a subscriber on trial
  or with a failed payment leaves the request as active.
\<close>

lemma cancel_subscription_stores_active:
  assumes "select_subscriber (Some email) (subscribers d) = Some row"
    and "s_status row \<notin> {''cancelled'', ''expired''}"
    and "s_razorpay_sub_id row = None"
  shows "\<exists>row'. select_subscriber (Some email)
                   (subscribers (store (cancel_subscription E clk email d))) = Some row' \<and>
                s_status row' = ''active''"
proof -
  have "cancel_subscription E clk email d = cancel_schedule clk email [] d"
    using assms by (simp add: cancel_subscription_def)
  then show ?thesis
    using cancel_schedule_result [OF assms(1), of clk "[]"] by auto
qed

section \<open>Status query\<close>

text \<open>
  C9, as the code has it. For every non-empty email the status query is read-only (the
  database is unchanged and the provider is not called); it answers
  \<open>{status: not_found, active: false}\<close> when no subscriber row has the email, and
  otherwise the stored columns of the row together with \<open>active\<close>, which is true exactly
  when the stored status is \<open>trial\<close> or \<open>active\<close>.
\<close>

theorem subscription_status_lookup:
  assumes "email \<noteq> []"
  shows "store (subscription_status email d) = d \<and>
         gateway_calls (subscription_status email d) = [] \<and>
         (case select_subscriber (Some email) (subscribers d) of
            None \<Rightarrow>
              response (subscription_status email d) =
                Json 200 [(''status'', PStr ''not_found''), (''active'', PBool False)]
          | Some row \<Rightarrow>
              (\<exists>fields. response (subscription_status email d) = Json 200 fields \<and>
                 map_of fields ''active'' = Some (PBool (s_status row \<in> {''trial'', ''active''})) \<and>
                 map_of fields ''email'' = Some (PStr (s_email row)) \<and>
                 map_of fields ''name'' = Some (opt_str (s_name row)) \<and>
                 map_of fields ''plan_key'' = Some (PStr (s_plan_key row)) \<and>
                 map_of fields ''status'' = Some (PStr (s_status row)) \<and>
                 map_of fields ''razorpay_sub_id'' = Some (opt_str (s_razorpay_sub_id row)) \<and>
                 map_of fields ''trial_start_at'' = Some (opt_str (s_trial_start_at row)) \<and>
                 map_of fields ''activated_at'' = Some (opt_str (s_activated_at row)) \<and>
                 map_of fields ''cancelled_at'' = Some (opt_str (s_cancelled_at row)) \<and>
                 map_of fields ''cancel_at_period_end'' =
                   Some (PBool (s_cancel_at_period_end row \<noteq> 0)) \<and>
                 map_of fields ''updated_at'' = Some (PStr (s_updated_at row))))"
  using assms by (simp add: subscription_status_def split: option.splits)

theorem subscription_status_lookup_witness:
  "response (subscription_status ''b@x.com'' sample_db) =
     Json 200 [(''status'', PStr ''not_found''), (''active'', PBool False)]
   \<and> store (subscription_status ''b@x.com'' sample_db) = sample_db
   \<and> (\<exists>fields. response (subscription_status ''a@x.com'' sample_db) = Json 200 fields \<and>
         map_of fields ''active'' = Some (PBool True))"
proof -
  have b: "select_subscriber (Some ''b@x.com'') (subscribers sample_db) = None"
    by (simp add: select_subscriber_def sample_db_def sample_subscriber_def)
  have a: "select_subscriber (Some ''a@x.com'') (subscribers sample_db) = Some sample_subscriber"
    by (simp add: select_subscriber_def sample_db_def sample_subscriber_def)
  have s: "s_status sample_subscriber \<in> {''trial'', ''active''}"
    by (simp add: sample_subscriber_def)
  from subscription_status_lookup [of "''b@x.com''" sample_db] b
  have 1: "response (subscription_status ''b@x.com'' sample_db) =
             Json 200 [(''status'', PStr ''not_found''), (''active'', PBool False)]
           \<and> store (subscription_status ''b@x.com'' sample_db) = sample_db"
    by simp
  from subscription_status_lookup [of "''a@x.com''" sample_db] a s
  have 2: "\<exists>fields. response (subscription_status ''a@x.com'' sample_db) = Json 200 fields \<and>
         map_of fields ''active'' = Some (PBool True)"
    by auto
  from 1 2 show ?thesis by simp
qed

text \<open>
  The query is read-only for every email, the empty one included.
\<close>

lemma subscription_status_read_only:
  "store (subscription_status email d) = d \<and> gateway_calls (subscription_status email d) = []"
  by (simp add: subscription_status_def split: option.splits)

text \<open>
  The claim as stated, for every email with no subscriber row, fails at the empty
  email: the handler answers 400 "email required" before it reads the table.
\<close>

theorem subscription_status_empty_email:
  "select_subscriber (Some []) (subscribers empty_db) = None \<and>
   response (subscription_status [] empty_db) = HTTPException 400 ''email required''"
  by (simp add: subscription_status_def select_subscriber_def empty_db_def)

section \<open>Subscription creation\<close>

text \<open>
  C8, as the code has it. The plan key is lower-cased before it is looked up. A request
  whose lower-cased plan key is not one of \<open>standard\<close> and \<open>pro\<close> is rejected with 400
  "Invalid plan"; one whose lower-cased key is in the allow-list but has an empty
  configured plan id is rejected with 503 "Plan not configured"; in both cases the
  provider is not called and the database is unchanged. The plan identifier sent by the
  client has no influence on the outcome of any request.
\<close>

theorem create_subscription_rejections:
  "(lower (c_plan_key req) \<notin> {''standard'', ''pro''} \<longrightarrow>
      create_subscription E clk req d =
        \<lparr>response = HTTPException 400 ''Invalid plan'', store = d, gateway_calls = []\<rparr>) \<and>
   (lower (c_plan_key req) = ''standard'' \<and> RAZORPAY_STANDARD_PLAN_ID E = [] \<or>
    lower (c_plan_key req) = ''pro'' \<and> RAZORPAY_PRO_PLAN_ID E = [] \<longrightarrow>
      create_subscription E clk req d =
        \<lparr>response = HTTPException 503 ''Plan not configured'', store = d,
         gateway_calls = []\<rparr>) \<and>
   create_subscription E clk (req\<lparr>c_plan_id := other\<rparr>) d = create_subscription E clk req d"
proof (intro conjI impI)
  assume "lower (c_plan_key req) \<notin> {''standard'', ''pro''}"
  then show "create_subscription E clk req d =
      \<lparr>response = HTTPException 400 ''Invalid plan'', store = d, gateway_calls = []\<rparr>"
    by (simp add: create_subscription_def RAZORPAY_PLAN_IDS_def)
next
  assume "lower (c_plan_key req) = ''standard'' \<and> RAZORPAY_STANDARD_PLAN_ID E = [] \<or>
    lower (c_plan_key req) = ''pro'' \<and> RAZORPAY_PRO_PLAN_ID E = []"
  then show "create_subscription E clk req d =
      \<lparr>response = HTTPException 503 ''Plan not configured'', store = d,
       gateway_calls = []\<rparr>"
    by (auto simp add: create_subscription_def RAZORPAY_PLAN_IDS_def)
next
  show "create_subscription E clk (req\<lparr>c_plan_id := other\<rparr>) d =
      create_subscription E clk req d"
    by (simp add: create_subscription_def create_payload_def Let_def
        split: option.split gw_reply.split sum.split)
qed

theorem create_subscription_rejections_witness:
  "create_subscription sample_env sample_clock (sample_creation\<lparr>c_plan_key := ''gold''\<rparr>) sample_db =
     \<lparr>response = HTTPException 400 ''Invalid plan'', store = sample_db, gateway_calls = []\<rparr> \<and>
   create_subscription sample_env sample_clock (sample_creation\<lparr>c_plan_key := ''PRO''\<rparr>) sample_db =
     \<lparr>response = HTTPException 503 ''Plan not configured'', store = sample_db,
      gateway_calls = []\<rparr>"
proof -
  let ?gold = "sample_creation\<lparr>c_plan_key := ''gold''\<rparr>"
  let ?pro = "sample_creation\<lparr>c_plan_key := ''PRO''\<rparr>"
  have a: "lower (c_plan_key ?gold) \<notin> {''standard'', ''pro''}"
    by code_simp
  have b: "lower (c_plan_key ?pro) = ''standard'' \<and> RAZORPAY_STANDARD_PLAN_ID sample_env = [] \<or>
           lower (c_plan_key ?pro) = ''pro'' \<and> RAZORPAY_PRO_PLAN_ID sample_env = []"
    by code_simp
  from a create_subscription_rejections [of ?gold sample_env sample_clock sample_db]
  have 1: "create_subscription sample_env sample_clock ?gold sample_db =
     \<lparr>response = HTTPException 400 ''Invalid plan'', store = sample_db, gateway_calls = []\<rparr>"
    by blast
  from b create_subscription_rejections [of ?pro sample_env sample_clock sample_db]
  have 2: "create_subscription sample_env sample_clock ?pro sample_db =
     \<lparr>response = HTTPException 503 ''Plan not configured'', store = sample_db,
      gateway_calls = []\<rparr>"
    by blast
  from 1 2 show ?thesis by (rule conjI)
qed

text \<open>
  The claim as stated rejects every plan key outside the allow-list; the key
  \<open>Standard\<close> is not in it, and yet the request creates the subscription upstream and
  registers the subscriber under the plan \<open>standard\<close>.
\<close>

theorem create_subscription_accepts_capitalised:
  "c_plan_key sample_creation \<notin> {''standard'', ''pro''} \<and>
   create_subscription sample_env sample_clock sample_creation empty_db =
     \<lparr>response = Json 200 [(''subscription_id'', PStr ''sub_1''), (''key_id'', PStr ''rzp_test_1'')],
      store = empty_db\<lparr>subscribers :=
        [\<lparr>s_email = ''a@x.com'', s_name = Some ''A'', s_phone = Some ''+1'',
          s_plan_key = ''standard'', s_status = ''trial'', s_razorpay_customer_id = None,
          s_razorpay_sub_id = Some ''sub_1'', s_created_at = sample_clock 1,
          s_trial_start_at = Some (sample_clock 0), s_activated_at = None,
          s_cancelled_at = None, s_cancel_at_period_end = 0,
          s_updated_at = sample_clock 1\<rparr>]\<rparr>,
      gateway_calls = [SubscriptionCreate
        (PDict [(''plan_id'', PStr ''plan_standard''), (''total_count'', PInt 120),
            (''quantity'', PInt 1), (''customer_notify'', PInt 1),
            (''notes'', PDict [(''email'', PStr ''a@x.com''), (''name'', PStr ''A''),
                               (''plan_key'', PStr ''standard'')])])]\<rparr>"
  by code_simp


section \<open>Webhook processing\<close>

text \<open>
  C1, as the code has it. A webhook whose body parses to a JSON object, whose signature
  header the verifier can compare, and whose event name and extracted entity id are
  values SQLite binds, appends exactly one row to \<open>webhook_log\<close>, whether the signature
  verifies or not, and before anything else is written: the dispatch runs on the
  database that already holds the row, and with an invalid signature the row is the
  only change.
\<close>

theorem webhook_appends_audit_row:
  assumes "verify_webhook_signature E body (case header of None \<Rightarrow> [] | Some s \<Rightarrow> s) = Inr sig_ok"
    and "json_loads E body = Some payload"
    and "dict_get payload ''event'' (PStr []) = Inr event"
    and "dict_get payload ''payload'' (PDict []) = Inr entity"
    and "bind_param event = Inr ev"
    and "bind_param (extract_entity_id payload) = Inr iv"
  shows "webhook_log (store (razorpay_webhook E clk body header d)) =
           webhook_log d @ [webhook_row (clk 0) ev iv (json_dumps E payload) sig_ok] \<and>
         length (webhook_log (store (razorpay_webhook E clk body header d))) =
           length (webhook_log d) + 1 \<and>
         store (razorpay_webhook E clk body header d) =
           (let d1 = d\<lparr>webhook_log := webhook_log d @
                       [webhook_row (clk 0) ev iv (json_dumps E payload) sig_ok]\<rparr>
            in if sig_ok then snd (dispatch clk event entity (json_dumps E payload) d1) else d1)"
proof -
  note st = webhook_logged [OF assms, of clk d]
  have "webhook_log (store (razorpay_webhook E clk body header d)) =
          webhook_log d @ [webhook_row (clk 0) ev iv (json_dumps E payload) sig_ok]"
    by (simp add: st Let_def dispatch_frame)
  then show ?thesis using st by simp
qed

theorem webhook_appends_audit_row_witness:
  "store (razorpay_webhook sample_env sample_clock sample_charged_body (Some ''0000'') sample_db) =
     sample_db\<lparr>webhook_log :=
       [\<lparr>w_event = Some ''subscription.charged'', w_entity_id = Some ''sub_1'',
         w_payload = Some ''{}'', w_signature_ok = 0,
         w_received_at = ''2024-03-01T10:00:00+00:00''\<rparr>]\<rparr> \<and>
   length (webhook_log (store
     (razorpay_webhook sample_env sample_clock sample_charged_body (Some ''9f2c'') sample_db))) = 1"
proof -
  have v0: "verify_webhook_signature sample_env sample_charged_body
              (case Some ''0000'' of None \<Rightarrow> [] | Some s \<Rightarrow> s) = Inr False"
    and v1: "verify_webhook_signature sample_env sample_charged_body
              (case Some ''9f2c'' of None \<Rightarrow> [] | Some s \<Rightarrow> s) = Inr True"
    by (simp_all add: sample_verify_webhook is_ascii_def)
  have e: "webhook_log sample_db = []"
    by (simp add: sample_db_def)
  from webhook_appends_audit_row [OF v0 sample_charged_parts, of sample_clock sample_db,
      THEN conjunct2, THEN conjunct2]
  have a: "store (razorpay_webhook sample_env sample_clock sample_charged_body
                    (Some ''0000'') sample_db) =
           sample_db\<lparr>webhook_log :=
             [\<lparr>w_event = Some ''subscription.charged'', w_entity_id = Some ''sub_1'',
               w_payload = Some ''{}'', w_signature_ok = 0,
               w_received_at = ''2024-03-01T10:00:00+00:00''\<rparr>]\<rparr>"
    by (simp add: e webhook_row_def sample_clock_def)
  from webhook_appends_audit_row [OF v1 sample_charged_parts, of sample_clock sample_db,
      THEN conjunct2, THEN conjunct1]
  have b: "length (webhook_log (store (razorpay_webhook sample_env sample_clock
              sample_charged_body (Some ''9f2c'') sample_db))) = 1"
    by (simp add: e)
  from a b show ?thesis by (rule conjI)
qed

text \<open>
  The parse comes before the INSERT and has a guard of its own: whatever the outcome
  of the signature comparison, a body that \<^verbatim>\<open>json.loads\<close> rejects is answered 400 and the
  database stays as it was.
\<close>

lemma razorpay_webhook_invalid_json:
  assumes "verify_webhook_signature E body (case header of None \<Rightarrow> [] | Some s \<Rightarrow> s) = Inr sig_ok"
    and "json_loads E body = None"
  shows "razorpay_webhook E clk body header d =
           \<lparr>response = HTTPException 400 ''Invalid payload'', store = d, gateway_calls = []\<rparr>"
  using assms by (simp add: razorpay_webhook_def)

text \<open>
  The claim as stated covers every body; a body that \<^verbatim>\<open>json.loads\<close> rejects is answered
  400 "Invalid payload" and leaves no row in \<open>webhook_log\<close>.
\<close>

theorem webhook_invalid_json_not_logged:
  "response (razorpay_webhook sample_env sample_clock ''not json'' (Some ''9f2c'') sample_db) =
     HTTPException 400 ''Invalid payload'' \<and>
   webhook_log (store
     (razorpay_webhook sample_env sample_clock ''not json'' (Some ''9f2c'') sample_db)) =
     webhook_log sample_db"
  by (simp add: razorpay_webhook_def sample_verify_webhook is_ascii_def)
    (simp add: sample_env_def sample_charged_body_def sample_activated_body_def)


text \<open>
  C3, as the code has it. A validly signed \<open>subscription.activated\<close> event for a
  subscriber who is already active leaves the status \<open>active\<close> and stores the time of
  this delivery in \<open>activated_at\<close>: the column is written on every delivery, not only
  when it is unset.
\<close>

theorem activated_redelivery_restamps:
  assumes "verify_webhook_signature E body (case header of None \<Rightarrow> [] | Some s \<Rightarrow> s) = Inr True"
    and "json_loads E body = Some payload"
    and "dict_get payload ''event'' (PStr []) = Inr (PStr ''subscription.activated'')"
    and "dict_get payload ''payload'' (PDict []) = Inr entity"
    and "bind_param (extract_entity_id payload) = Inr iv"
    and "activated_fields entity = Inr (sub_id, PStr email, plan_key)"
    and "email \<noteq> []"
    and "bind_param sub_id = Inr sv" and "bind_param plan_key = Inr pv"
    and "select_subscriber (Some email) (subscribers d) = Some old"
    and "s_status old = ''active''"
  shows "\<exists>row. select_subscriber (Some email)
                  (subscribers (store (razorpay_webhook E clk body header d))) = Some row \<and>
               s_status row = ''active'' \<and> s_activated_at row = Some (clk 1)"
proof -
  let ?d1 = "d\<lparr>webhook_log := webhook_log d @
               [webhook_row (clk 0) (SText ''subscription.activated'') iv
                  (json_dumps E payload) True]\<rparr>"
  let ?a = "(upsert_defaults (PStr email))
              \<lparr>u_plan_key := plan_key, u_status := ''active'',
               u_razorpay_sub_id := sub_id, u_activated_at := Some (clk 1)\<rparr>"
  have bev: "bind_param (PStr ''subscription.activated'') = Inr (SText ''subscription.activated'')"
    by simp
  have st: "store (razorpay_webhook E clk body header d) =
              snd (subscription_activated clk entity ?d1)"
    using webhook_logged [OF assms(1,2,3,4) bev assms(5), of clk d]
    by (simp add: dispatch_def)
  have "u_email ?a = PStr email" and "bind_param (u_plan_key ?a) = Inr pv"
    and "bind_param (u_razorpay_sub_id ?a) = Inr sv"
    and "select_subscriber (Some email) (subscribers ?d1) \<noteq> None \<or> as_text pv \<noteq> None"
    using assms(8,9,10) by (simp_all add: upsert_defaults_def)
  from upsert_text [OF this, of "clk 2"]
  obtain subs' row where "upsert_subscriber (clk 2) ?a (subscribers ?d1) = Inr subs'"
    and "select_subscriber (Some email) subs' = Some row"
    and "s_status row = ''active''" and "s_activated_at row = Some (clk 1)"
    by (auto simp add: upsert_defaults_def)
  then show ?thesis
    using assms(6,7)
    by (simp add: st subscription_activated_def commit_def in_subscribers_def)
qed

theorem activated_redelivery_restamps_witness:
  "s_activated_at sample_subscriber = Some ''2024-01-02T09:00:00+00:00'' \<and>
   (\<exists>row. select_subscriber (Some ''a@x.com'')
       (subscribers (store (razorpay_webhook sample_env sample_clock sample_activated_body
          (Some ''9f2c'') sample_db))) = Some row \<and>
      s_status row = ''active'' \<and> s_activated_at row = Some ''2024-03-01T10:00:01+00:00'')"
proof -
  have v: "verify_webhook_signature sample_env sample_activated_body
              (case Some ''9f2c'' of None \<Rightarrow> [] | Some s \<Rightarrow> s) = Inr True"
    by (simp add: sample_verify_webhook is_ascii_def)
  have e: "''a@x.com'' \<noteq> []" by simp
  have b1: "bind_param (PStr ''sub_1'') = Inr (SText ''sub_1'')"
    and b2: "bind_param (PStr ''standard'') = Inr (SText ''standard'')"
    by simp_all
  have sel: "select_subscriber (Some ''a@x.com'') (subscribers sample_db) = Some sample_subscriber"
    by (simp add: select_subscriber_def sample_db_def sample_subscriber_def)
  have act: "s_status sample_subscriber = ''active''"
    and old: "s_activated_at sample_subscriber = Some ''2024-01-02T09:00:00+00:00''"
    by (simp_all add: sample_subscriber_def)
  from activated_redelivery_restamps [OF v sample_activated_parts e b1 b2 sel act, of sample_clock]
    old
  show ?thesis by (simp add: sample_clock_def)
qed

text \<open>
  The claim as stated keeps \<open>activated_at\<close> on redelivery; for the active sample
  subscriber, activated on the second of January, a redelivery on the first of March
  replaces the stored time.
\<close>

theorem activated_redelivery_changes_timestamp:
  "s_status sample_subscriber = ''active'' \<and>
   s_activated_at sample_subscriber = Some ''2024-01-02T09:00:00+00:00'' \<and>
   map_option s_activated_at (select_subscriber (Some ''a@x.com'')
       (subscribers (store (razorpay_webhook sample_env sample_clock sample_activated_body
          (Some ''9f2c'') sample_db)))) = Some (Some ''2024-03-01T10:00:01+00:00'')"
  by code_simp


text \<open>
  C2. Take a validly signed \<open>subscription.charged\<close> body whose payment id and email
  are non-empty strings and whose other fields are values SQLite binds, the plan key not
  null, and a payment log that respects its UNIQUE constraint. After \<open>n\<close> deliveries of
  that body, for any \<open>n\<close> from 1 on, the payment log holds exactly one row with the
  payment id, and the status of the subscriber is the one after the first delivery,
  namely \<open>active\<close>.
\<close>

theorem charged_redelivery_idempotent:
  assumes "verify_webhook_signature E body (case header of None \<Rightarrow> [] | Some s \<Rightarrow> s) = Inr True"
    and "json_loads E body = Some payload"
    and "dict_get payload ''event'' (PStr []) = Inr (PStr ''subscription.charged'')"
    and "dict_get payload ''payload'' (PDict []) = Inr entity"
    and "charged_fields entity = Inr (PStr pid, sub_id, amount, PStr email, plan_key, contact)"
    and "pid \<noteq> []" and "email \<noteq> []"
    and "bind_param sub_id = Inr sv" and "bind_param amount = Inr av"
    and "bind_param plan_key = Inr pv" and "pv \<noteq> SNull"
    and "bind_param contact = Inr cv"
    and "distinct (map p_razorpay_payment_id (payment_log d))"
    and "1 \<le> n"
  shows "length (filter (\<lambda>r. p_razorpay_payment_id r = pid)
           (payment_log (deliver E clks body header n d))) = 1 \<and>
         map_option s_status (select_subscriber (Some email)
           (subscribers (deliver E clks body header n d))) =
         map_option s_status (select_subscriber (Some email)
           (subscribers (deliver E clks body header 1 d))) \<and>
         map_option s_status (select_subscriber (Some email)
           (subscribers (deliver E clks body header n d))) = Some ''active''"
proof -
  note step = charged_step [OF assms(1-12)]
  have inv: "distinct (map p_razorpay_payment_id (payment_log (deliver E clks body header k d)))"
    for k
  proof (induction k)
    case 0
    show ?case using assms(13) by simp
  next
    case (Suc k)
    from step [OF Suc, of "clks k"] show ?case by simp
  qed
  have after: "length (filter (\<lambda>r. p_razorpay_payment_id r = pid)
           (payment_log (deliver E clks body header (Suc k) d))) = 1 \<and>
         map_option s_status (select_subscriber (Some email)
           (subscribers (deliver E clks body header (Suc k) d))) = Some ''active''" for k
    using step [OF inv [of k], of "clks k"] by simp
  from assms(14) obtain k where n: "n = Suc k"
    by (cases n) simp_all
  have first: "map_option s_status (select_subscriber (Some email)
           (subscribers (deliver E clks body header 1 d))) = Some ''active''"
    using after [of 0] unfolding One_nat_def by (rule conjunct2)
  have count: "length (filter (\<lambda>r. p_razorpay_payment_id r = pid)
           (payment_log (deliver E clks body header n d))) = 1"
    using after [of k] unfolding n by (rule conjunct1)
  have last: "map_option s_status (select_subscriber (Some email)
           (subscribers (deliver E clks body header n d))) = Some ''active''"
    using after [of k] unfolding n by (rule conjunct2)
  show ?thesis
    using count last by (simp only: first simp_thms)
qed

theorem charged_redelivery_idempotent_witness:
  "length (filter (\<lambda>r. p_razorpay_payment_id r = ''pay_1'')
     (payment_log (deliver sample_env (\<lambda>k. sample_clock) sample_charged_body (Some ''9f2c'') 3
        empty_db))) = 1 \<and>
   map_option s_status (select_subscriber (Some ''a@x.com'')
     (subscribers (deliver sample_env (\<lambda>k. sample_clock) sample_charged_body (Some ''9f2c'') 3
        empty_db))) = Some ''active''"
proof -
  have v: "verify_webhook_signature sample_env sample_charged_body
              (case Some ''9f2c'' of None \<Rightarrow> [] | Some s \<Rightarrow> s) = Inr True"
    by (simp add: sample_verify_webhook is_ascii_def)
  have ne: "''pay_1'' \<noteq> []" "''a@x.com'' \<noteq> []" by simp_all
  have b: "bind_param (PStr ''sub_1'') = Inr (SText ''sub_1'')"
    "bind_param (PInt 19900) = Inr (SInt 19900)"
    "bind_param (PStr ''pro'') = Inr (SText ''pro'')"
    "SText ''pro'' \<noteq> SNull"
    "bind_param (PStr ''+1'') = Inr (SText ''+1'')"
    by simp_all
  have d: "distinct (map p_razorpay_payment_id (payment_log empty_db))"
    by (simp add: empty_db_def)
  have n: "(1::nat) \<le> 3" by simp
  from charged_redelivery_idempotent [OF v sample_charged_parts(1,2,3) sample_charged_fields
      ne b d n, of "\<lambda>k. sample_clock"]
  show ?thesis by blast
qed


end
